theory Spec2Isabelle
  imports Complex_Main "HOL-Library.AList"
begin

section \<open>Numbers, points and quotes\<close>

text \<open>
  The JavaScript sources compute with IEEE doubles. The chart series and their
  indicators are modelled with exact reals: every number is finite and arithmetic
  does not round, except where a rounding function is a parameter (\<open>calculateEMA\<close>).
  The risk and trade checks are modelled on doubles. Timestamps (\<open>Date.now()\<close>) are
  integers. A chart point is the object \<open>{x: timestamp, y: value}\<close>.
\<close>

record point =
  px :: int
  py :: real

record quote =
  symbol :: string
  bid :: real
  ask :: real

datatype js_error = TypeError

section \<open>Doubles\<close>

text \<open>
  A JavaScript number is an IEEE 754 double. A finite double is a real number of the
  form \<open>m * 2^e\<close> with \<open>|m| < 2^53\<close> and \<open>e \<ge> -1074\<close>; every arithmetic operation
  returns the double nearest to the exact result, the one with the even \<open>m\<close> on a tie.
  \<open>fl\<close> is that rounding (without the overflow, which \<open>fl_inf\<close> adds), so the literal
  \<open>1.1\<close> of a source text is \<open>fl (11 / 10)\<close>. Zero has no sign here.
\<close>

function bit_length :: "int \<Rightarrow> nat" where
  "bit_length n = (if n \<le> 0 then 0 else Suc (bit_length (n div 2)))"
  by pat_completeness auto
termination
  by (relation "measure nat") auto

declare bit_length.simps [simp del]

definition pow2 :: "int \<Rightarrow> real" where
  "pow2 e = (if 0 \<le> e then 2 ^ nat e else 1 / 2 ^ nat (- e))"

text \<open>For \<open>x > 0\<close>, the integer \<open>k\<close> with \<open>2^k \<le> x < 2^(k+1)\<close>.\<close>

definition ilog2 :: "real \<Rightarrow> int" where
  "ilog2 x =
     (if 1 \<le> x then int (bit_length \<lfloor>x\<rfloor>) - 1
      else - int (bit_length (\<lceil>1 / x\<rceil> - 1)))"

text \<open>The nearest integer, the even one of two equally near.\<close>

definition round_even :: "real \<Rightarrow> int" where
  "round_even x =
     (let f = \<lfloor>x\<rfloor>; d = x - of_int f
      in if d < 1 / 2 then f else if d > 1 / 2 then f + 1 else if even f then f else f + 1)"

definition fl :: "real \<Rightarrow> real" where
  "fl x =
     (if x = 0 then 0
      else let e = max (ilog2 \<bar>x\<bar> - 52) (- 1074)
           in of_int (round_even (x / pow2 e)) * pow2 e)"

datatype js_num = Finite real | PosInfinity | NegInfinity | NaN

text \<open>
  A result that rounds to \<open>2^1024\<close> or beyond, that is, whose \<open>ilog2\<close> is at least
  1024, is an infinity.
\<close>

definition fl_inf :: "real \<Rightarrow> js_num" where
  "fl_inf x =
     (let y = fl x
      in if y \<noteq> 0 \<and> 1024 \<le> ilog2 \<bar>y\<bar>
         then (if 0 < y then PosInfinity else NegInfinity)
         else Finite y)"

text \<open>
  The operators \<open>-\<close>, \<open>*\<close>, \<open>/\<close>, \<open>Math.abs\<close>, \<open><\<close>, \<open>>\<close> and \<open><=\<close> on numbers. \<open>js_sgn\<close> is the
  sign of a number and \<open>signed_inf\<close> the infinity of a sign, \<open>NaN\<close> for no sign.
\<close>

fun js_sgn :: "js_num \<Rightarrow> real" where
  "js_sgn (Finite a) = sgn a"
| "js_sgn PosInfinity = 1"
| "js_sgn NegInfinity = - 1"
| "js_sgn NaN = 0"

definition signed_inf :: "real \<Rightarrow> js_num" where
  "signed_inf s = (if s = 0 then NaN else if 0 < s then PosInfinity else NegInfinity)"

fun js_sub :: "js_num \<Rightarrow> js_num \<Rightarrow> js_num" where
  "js_sub (Finite a) (Finite b) = fl_inf (a - b)"
| "js_sub NaN y = NaN"
| "js_sub x NaN = NaN"
| "js_sub PosInfinity PosInfinity = NaN"
| "js_sub NegInfinity NegInfinity = NaN"
| "js_sub PosInfinity y = PosInfinity"
| "js_sub NegInfinity y = NegInfinity"
| "js_sub (Finite a) PosInfinity = NegInfinity"
| "js_sub (Finite a) NegInfinity = PosInfinity"

fun js_mul :: "js_num \<Rightarrow> js_num \<Rightarrow> js_num" where
  "js_mul (Finite a) (Finite b) = fl_inf (a * b)"
| "js_mul NaN y = NaN"
| "js_mul x NaN = NaN"
| "js_mul x y = signed_inf (js_sgn x * js_sgn y)"

fun js_div :: "js_num \<Rightarrow> js_num \<Rightarrow> js_num" where
  "js_div (Finite a) (Finite b) = (if b \<noteq> 0 then fl_inf (a / b) else signed_inf (sgn a))"
| "js_div NaN y = NaN"
| "js_div x NaN = NaN"
| "js_div (Finite a) y = Finite 0"
| "js_div x (Finite b) = signed_inf (js_sgn x * (if b < 0 then - 1 else 1))"
| "js_div x y = NaN"

fun js_abs :: "js_num \<Rightarrow> js_num" where
  "js_abs (Finite a) = Finite \<bar>a\<bar>"
| "js_abs NegInfinity = PosInfinity"
| "js_abs x = x"

fun js_less :: "js_num \<Rightarrow> js_num \<Rightarrow> bool" where
  "js_less NaN y = False"
| "js_less x NaN = False"
| "js_less (Finite a) (Finite b) = (a < b)"
| "js_less NegInfinity NegInfinity = False"
| "js_less NegInfinity y = True"
| "js_less x NegInfinity = False"
| "js_less PosInfinity y = False"
| "js_less x PosInfinity = True"

definition js_greater :: "js_num \<Rightarrow> js_num \<Rightarrow> bool" where
  "js_greater x y = js_less y x"

definition js_le :: "js_num \<Rightarrow> js_num \<Rightarrow> bool" where
  "js_le x y = (x \<noteq> NaN \<and> y \<noteq> NaN \<and> \<not> js_less y x)"

text \<open>
  An optional number is \<open>null\<close> or \<open>undefined\<close> (\<open>None\<close>) or a number. In a condition
  \<open>null\<close>, \<open>NaN\<close> and 0 are false; in arithmetic \<open>null\<close> counts as 0; \<open>a || b\<close> is \<open>a\<close> when
  \<open>a\<close> is true in a condition and \<open>b\<close> otherwise.
\<close>

fun js_truthy :: "js_num option \<Rightarrow> bool" where
  "js_truthy None = False"
| "js_truthy (Some NaN) = False"
| "js_truthy (Some (Finite a)) = (a \<noteq> 0)"
| "js_truthy (Some x) = True"

fun js_num_of :: "js_num option \<Rightarrow> js_num" where
  "js_num_of None = Finite 0"
| "js_num_of (Some x) = x"


section \<open>ChartManager: the bounded price and volume series (js/chart.js)\<close>

text \<open>\<open>CONFIG.PERFORMANCE.MAX_CHART_POINTS\<close> of js/config.js.\<close>

definition MAX_CHART_POINTS :: nat where
  "MAX_CHART_POINTS = 1000"

text \<open>\<open>Array.prototype.shift\<close>: drops the first element; an empty array stays empty.\<close>

fun shift :: "'a list \<Rightarrow> 'a list" where
  "shift [] = []"
| "shift (v # vs) = vs"

record chart =
  currentSymbol :: string
  priceData :: "point list"
  volumeData :: "point list"
  isUpdating :: bool

text \<open>The fields as the constructor leaves them; the symbol is \<open>initializeSymbol()\<close>.\<close>

definition new_chart :: "string \<Rightarrow> chart" where
  "new_chart symb = \<lparr>currentSymbol = symb, priceData = [], volumeData = [], isUpdating = False\<rparr>"

text \<open>
  \<open>updatePriceData(quote)\<close>. The clock reading \<open>now\<close> and the draw \<open>rnd\<close> of
  \<open>Math.random()\<close> are inputs. A missing quote (\<open>None\<close>) or a quote of another symbol
  returns at once. Otherwise one point is pushed on each series and, when the price
  series is longer than the bound, one \<open>shift()\<close> is applied to each series.
\<close>

definition updatePriceData :: "int \<Rightarrow> real \<Rightarrow> quote option \<Rightarrow> chart \<Rightarrow> chart" where
  "updatePriceData now rnd q s =
     (case q of
        None \<Rightarrow> s
      | Some qt \<Rightarrow>
          if symbol qt \<noteq> currentSymbol s then s
          else
            let price = (bid qt + ask qt) / 2;
                pd = priceData s @ [\<lparr>px = now, py = price\<rparr>];
                vd = volumeData s @ [\<lparr>px = now, py = rnd * 500 + 250\<rparr>];
                over = (length pd > MAX_CHART_POINTS);
                pd' = (if over then shift pd else pd);
                vd' = (if over then shift vd else vd)
            in s\<lparr>priceData := pd', volumeData := vd', isUpdating := True\<rparr>)"

text \<open>
  \<open>generateMockHistoricalData()\<close>: the loop \<open>for (i = points; i >= 0; i--)\<close> with
  \<open>points = 100\<close>. The two draws of \<open>Math.random()\<close> of round \<open>i\<close> are \<open>r1 i\<close> and \<open>r2 i\<close>.
\<close>

fun mock_loop ::
  "nat \<Rightarrow> (nat \<Rightarrow> real) \<Rightarrow> (nat \<Rightarrow> real) \<Rightarrow> int \<Rightarrow> int \<Rightarrow> real \<Rightarrow>
   point list \<Rightarrow> point list \<Rightarrow> point list \<times> point list" where
  "mock_loop i r1 r2 now interval currentPrice prices volumes =
     (let timestamp = now - int i * interval;
          change = (r1 i - 0.48) * 0.002;
          p = max 1.06 (min 1.11 (currentPrice + change));
          prices' = prices @ [\<lparr>px = timestamp, py = p\<rparr>];
          volumes' = volumes @ [\<lparr>px = timestamp, py = r2 i * 1000 + 500\<rparr>]
      in case i of
           0 \<Rightarrow> (prices', volumes')
         | Suc k \<Rightarrow> mock_loop k r1 r2 now interval p prices' volumes')"

declare mock_loop.simps [simp del]

definition generateMockHistoricalData ::
  "(nat \<Rightarrow> real) \<Rightarrow> (nat \<Rightarrow> real) \<Rightarrow> int \<Rightarrow> int \<Rightarrow> point list \<times> point list" where
  "generateMockHistoricalData r1 r2 now interval =
     mock_loop 100 r1 r2 now interval 1.0850 [] []"

text \<open>\<open>loadInitialData()\<close> replaces both series by the generated ones.\<close>

definition loadInitialData ::
  "(nat \<Rightarrow> real) \<Rightarrow> (nat \<Rightarrow> real) \<Rightarrow> int \<Rightarrow> int \<Rightarrow> chart \<Rightarrow> chart" where
  "loadInitialData r1 r2 now interval s =
     (let mockData = generateMockHistoricalData r1 r2 now interval
      in s\<lparr>priceData := fst mockData, volumeData := snd mockData\<rparr>)"

text \<open>
  \<open>changeSymbol(symbol)\<close> up to its first \<open>await\<close>: nothing for the current symbol,
  otherwise the symbol is replaced and both series are cleared. The reload that
  follows the \<open>await\<close> is a later \<open>loadInitialData\<close>. \<open>destroy()\<close> clears both series.
\<close>

definition changeSymbol :: "string \<Rightarrow> chart \<Rightarrow> chart" where
  "changeSymbol symb s =
     (if symb = currentSymbol s then s
      else s\<lparr>currentSymbol := symb, priceData := [], volumeData := []\<rparr>)"

definition destroy :: "chart \<Rightarrow> chart" where
  "destroy s = s\<lparr>priceData := [], volumeData := []\<rparr>"

text \<open>
  The handlers of the single event loop that write the two series, one event each.
  \<open>changeTimeframe\<close> writes them only through its \<open>loadInitialData\<close>.
\<close>

datatype chart_event =
    QuoteEvent int real "quote option"
  | LoadInitialData "nat \<Rightarrow> real" "nat \<Rightarrow> real" int int
  | ChangeSymbol string
  | Destroy

fun chart_step :: "chart \<Rightarrow> chart_event \<Rightarrow> chart" where
  "chart_step s (QuoteEvent now rnd q) = updatePriceData now rnd q s"
| "chart_step s (LoadInitialData r1 r2 now interval) = loadInitialData r1 r2 now interval s"
| "chart_step s (ChangeSymbol symb) = changeSymbol symb s"
| "chart_step s Destroy = destroy s"

definition chart_run :: "chart \<Rightarrow> chart_event list \<Rightarrow> chart" where
  "chart_run s evs = foldl chart_step s evs"

text \<open>A stream of quotes alone: each with its clock reading and random draw.\<close>

definition quote_step :: "chart \<Rightarrow> int \<times> real \<times> quote option \<Rightarrow> chart" where
  "quote_step s e = (case e of (now, rnd, q) \<Rightarrow> updatePriceData now rnd q s)"

definition process_quotes :: "chart \<Rightarrow> (int \<times> real \<times> quote option) list \<Rightarrow> chart" where
  "process_quotes s qs = foldl quote_step s qs"

section \<open>ChartManager: the indicators (js/chart.js)\<close>

text \<open>
  The indicators read \<open>this.priceData\<close>, here the argument \<open>ps\<close>. A period is a count
  of points, a natural number. With period 0 each of the three functions passes its
  length test and then reads \<open>this.priceData[-1].x\<close>, a property of \<open>undefined\<close>: a
  TypeError. For a period of at least 1 every index the loops read is in range.
\<close>

text \<open>The inner loop of \<open>calculateSMA\<close>: \<open>for (j = 0; j < period; j++) sum += priceData[i - j].y\<close>.\<close>

function sma_sum :: "point list \<Rightarrow> nat \<Rightarrow> nat \<Rightarrow> nat \<Rightarrow> real \<Rightarrow> real" where
  "sma_sum ps i period j acc =
     (if j < period then sma_sum ps i period (Suc j) (acc + py (ps ! (i - j))) else acc)"
  by pat_completeness auto
termination
  by (relation "measure (\<lambda>(ps, i, period, j, acc). period - j)") auto

declare sma_sum.simps [simp del]

text \<open>The outer loop: \<open>for (i = period - 1; i < priceData.length; i++)\<close>, pushing one point.\<close>

function sma_loop :: "point list \<Rightarrow> nat \<Rightarrow> nat \<Rightarrow> point list \<Rightarrow> point list" where
  "sma_loop ps period i sma =
     (if i < length ps
      then sma_loop ps period (Suc i)
             (sma @ [\<lparr>px = px (ps ! i), py = sma_sum ps i period 0 0 / real period\<rparr>])
      else sma)"
  by pat_completeness auto
termination
  by (relation "measure (\<lambda>(ps, period, i, sma). length ps - i)") auto

declare sma_loop.simps [simp del]

definition calculateSMA :: "point list \<Rightarrow> nat \<Rightarrow> js_error + point list" where
  "calculateSMA ps period =
     (if length ps < period then Inr []
      else if period = 0 then Inl TypeError
      else Inr (sma_loop ps period (period - 1) []))"

text \<open>
  \<open>calculateEMA\<close>: the sum of the first \<open>period\<close> prices, then the smoothing loop.
  The parameter \<open>rnd\<close> is the rounding applied to the result of every arithmetic
  operation: \<open>fl\<close> for the doubles the source computes with (as long as no result
  reaches \<open>2^1024\<close>, where the source has \<open>Infinity\<close>), the identity for exact
  arithmetic. The loop counters and \<open>period\<close> are small integers, which are doubles.
\<close>

function ema_first_sum :: "(real \<Rightarrow> real) \<Rightarrow> point list \<Rightarrow> nat \<Rightarrow> nat \<Rightarrow> real \<Rightarrow> real" where
  "ema_first_sum rnd ps period i acc =
     (if i < period then ema_first_sum rnd ps period (Suc i) (rnd (acc + py (ps ! i))) else acc)"
  by pat_completeness auto
termination
  by (relation "measure (\<lambda>(rnd, ps, period, i, acc). period - i)") auto

declare ema_first_sum.simps [simp del]

text \<open>
  \<open>ema[ema.length - 1]\<close> is the last element pushed; the array holds the first value
  when the loop starts, so it is never empty.
\<close>

function ema_loop :: "(real \<Rightarrow> real) \<Rightarrow> point list \<Rightarrow> real \<Rightarrow> nat \<Rightarrow> point list \<Rightarrow> point list" where
  "ema_loop rnd ps multiplier i ema =
     (if i < length ps
      then let v = rnd (rnd (rnd (py (ps ! i) - py (last ema)) * multiplier) + py (last ema))
           in ema_loop rnd ps multiplier (Suc i) (ema @ [\<lparr>px = px (ps ! i), py = v\<rparr>])
      else ema)"
  by pat_completeness auto
termination
  by (relation "measure (\<lambda>(rnd, ps, multiplier, i, ema). length ps - i)") auto

declare ema_loop.simps [simp del]

definition calculateEMA :: "(real \<Rightarrow> real) \<Rightarrow> point list \<Rightarrow> nat \<Rightarrow> js_error + point list" where
  "calculateEMA rnd ps period =
     (if length ps < period then Inr []
      else if period = 0 then Inl TypeError
      else
        let multiplier = rnd (2 / rnd (real period + 1));
            acc = ema_first_sum rnd ps period 0 0;
            ema = [\<lparr>px = px (ps ! (period - 1)), py = rnd (acc / real period)\<rparr>]
        in Inr (ema_loop rnd ps multiplier period ema))"

text \<open>
  The value \<open>calculateSMA\<close> pushes for index \<open>i\<close> when every operation is rounded by
  \<open>rnd\<close>: its inner loop, which adds the window from index \<open>i\<close> downwards, and the
  division. With the identity for \<open>rnd\<close> these are \<open>sma_sum\<close> and the division of
  \<open>sma_loop\<close>.
\<close>

function sma_sum_rounded ::
  "(real \<Rightarrow> real) \<Rightarrow> point list \<Rightarrow> nat \<Rightarrow> nat \<Rightarrow> nat \<Rightarrow> real \<Rightarrow> real" where
  "sma_sum_rounded rnd ps i period j acc =
     (if j < period
      then sma_sum_rounded rnd ps i period (Suc j) (rnd (acc + py (ps ! (i - j))))
      else acc)"
  by pat_completeness auto
termination
  by (relation "measure (\<lambda>(rnd, ps, i, period, j, acc). period - j)") auto

declare sma_sum_rounded.simps [simp del]

definition sma_value_rounded :: "(real \<Rightarrow> real) \<Rightarrow> point list \<Rightarrow> nat \<Rightarrow> nat \<Rightarrow> real" where
  "sma_value_rounded rnd ps period i = rnd (sma_sum_rounded rnd ps i period 0 0 / real period)"







text \<open>
  What the specification says of the indicators, in its own words: the trailing
  window of \<open>period\<close> points that ends at index \<open>i\<close>, the arithmetic mean, and the
  population standard deviation (the squared deviations divided by the number of
  points, not by one less).
\<close>

definition spec_window :: "point list \<Rightarrow> nat \<Rightarrow> nat \<Rightarrow> real list" where
  "spec_window ps period i = map py (take period (drop (Suc i - period) ps))"

definition spec_mean :: "real list \<Rightarrow> real" where
  "spec_mean vs = sum_list vs / real (length vs)"


text \<open>
  The sum of a list of numbers added one by one from the first, each partial sum
  rounded by \<open>rnd\<close>.
\<close>

definition spec_rounded_sum :: "(real \<Rightarrow> real) \<Rightarrow> real list \<Rightarrow> real" where
  "spec_rounded_sum rnd vs = foldl (\<lambda>a v. rnd (a + v)) 0 vs"


section \<open>Numbers as text\<close>

text \<open>
  Template strings print numbers with \<open>Number::toString\<close>; \<open>toFixed(2)\<close> prints two
  decimals. \<open>show_nat\<close> and \<open>show_int\<close> are the decimal numeral of a natural number and
  of an integer that is not negative.
\<close>

definition digit_char :: "nat \<Rightarrow> char" where
  "digit_char d = ''0123456789'' ! (d mod 10)"

fun show_nat :: "nat \<Rightarrow> string" where
  "show_nat n = (if n < 10 then [digit_char n] else show_nat (n div 10) @ [digit_char (n mod 10)])"

declare show_nat.simps [simp del]

function show_int :: "int \<Rightarrow> string" where
  "show_int n =
     (if n < 10 then [digit_char (nat n)]
      else show_int (n div 10) @ [digit_char (nat (n mod 10))])"
  by pat_completeness auto
termination
  by (relation "measure nat") auto

declare show_int.simps [simp del]

text \<open>
  \<open>x.toFixed(2)\<close> for a finite \<open>x\<close> below \<open>10^21\<close>: the sign, then the integer \<open>n\<close>
  nearest to \<open>|x| * 100\<close> (the larger one on a tie) with the point before its last two
  digits. The number \<open>x\<close> is the exact value of the double.
\<close>

definition toFixed2 :: "real \<Rightarrow> string" where
  "toFixed2 v =
     (let n = \<lfloor>\<bar>v\<bar> * 100 + 1 / 2\<rfloor>
      in (if v < 0 then ''-'' else []) @ show_int (n div 100) @ ''.'' @
         [digit_char (nat (n mod 100 div 10)), digit_char (nat (n mod 10))])"

text \<open>
  \<open>Number::toString\<close> of a finite double \<open>v\<close>: the decimal with the fewest significant
  digits that rounds to \<open>v\<close> (the nearest to \<open>v\<close> among those), written without an
  exponent when it lies in \<open>10^-6 \<le> a < 10^21\<close> and as \<open>d.ddde+n\<close> or \<open>d.ddde-n\<close>
  otherwise. \<open>decimal_exponent x\<close> is the \<open>n\<close> with \<open>10^(n-1) \<le> x < 10^n\<close>,
  \<open>round_digits k x\<close> the decimal of \<open>k\<close> significant digits nearest to \<open>x\<close>, and
  \<open>shortest\<close> tries \<open>k = 1, 2, ...\<close> up to 17 digits, which always suffice.
\<close>

definition pow10 :: "int \<Rightarrow> real" where
  "pow10 e = (if 0 \<le> e then 10 ^ nat e else 1 / 10 ^ nat (- e))"

definition decimal_exponent :: "real \<Rightarrow> int" where
  "decimal_exponent x =
     (if 1 \<le> x then int (length (show_int \<lfloor>x\<rfloor>))
      else 1 - int (length (show_int (\<lceil>1 / x\<rceil> - 1))))"

definition round_digits :: "nat \<Rightarrow> real \<Rightarrow> real" where
  "round_digits k x =
     (let q = pow10 (decimal_exponent x - int k) in of_int (round_even (x / q)) * q)"

fun shortest :: "nat \<Rightarrow> nat \<Rightarrow> real \<Rightarrow> real" where
  "shortest 0 k x = round_digits k x"
| "shortest (Suc n) k x =
     (if fl (round_digits k x) = x then round_digits k x else shortest n (Suc k) x)"

fun frac_digits :: "nat \<Rightarrow> real \<Rightarrow> string" where
  "frac_digits 0 f = []"
| "frac_digits (Suc k) f =
     (if f = 0 then []
      else let d = \<lfloor>f * 10\<rfloor> in digit_char (nat d) # frac_digits k (f * 10 - of_int d))"

definition decimal_text :: "real \<Rightarrow> string" where
  "decimal_text a =
     (let w = \<lfloor>a\<rfloor>; f = a - of_int w
      in show_int w @ (if f = 0 then [] else ''.'' @ frac_digits 30 f))"

definition exponent_text :: "real \<Rightarrow> string" where
  "exponent_text a =
     (let e = decimal_exponent a - 1
      in decimal_text (a / pow10 e) @ ''e'' @ (if 0 \<le> e then ''+'' else ''-'') @ show_int \<bar>e\<bar>)"

definition number_text :: "real \<Rightarrow> string" where
  "number_text v =
     (if v = 0 then ''0''
      else (if v < 0 then ''-'' else []) @
        (let a = shortest 16 1 \<bar>v\<bar>
         in if pow10 (- 6) \<le> a \<and> a < pow10 21 then decimal_text a else exponent_text a))"

text \<open>
  \<open>x.toFixed(2)\<close> of any number: \<open>Number::toString\<close> from \<open>10^21\<close> on, and the names of
  the values that are not finite.
\<close>

fun js_toFixed2 :: "js_num \<Rightarrow> string" where
  "js_toFixed2 (Finite v) = (if pow10 21 \<le> \<bar>v\<bar> then number_text v else toFixed2 v)"
| "js_toFixed2 PosInfinity = ''Infinity''"
| "js_toFixed2 NegInfinity = ''-Infinity''"
| "js_toFixed2 NaN = ''NaN''"

text \<open>
  \<open>String.prototype.toUpperCase\<close> and \<open>toLowerCase\<close> on ASCII letters, and
  \<open>errors.join(', ')\<close>.
\<close>

definition upper_char :: "char \<Rightarrow> char" where
  "upper_char c =
     (let n = (of_char c :: nat) in if 97 \<le> n \<and> n \<le> 122 then char_of (n - 32) else c)"

definition toUpperCase :: "string \<Rightarrow> string" where
  "toUpperCase str = map upper_char str"



fun join_comma :: "string list \<Rightarrow> string" where
  "join_comma [] = []"
| "join_comma [e] = e"
| "join_comma (e # es) = e @ '', '' @ join_comma es"

text \<open>
  The volume argument of \<open>closePosition\<close> and the volume of a position are kept as
  plain numbers: \<open>null\<close> (\<open>None\<close>) and 0 are false in a condition, and \<open>null\<close> counts as 0
  in arithmetic.
\<close>

fun truthy :: "real option \<Rightarrow> bool" where
  "truthy None = False"
| "truthy (Some v) = (v \<noteq> 0)"

fun num_of :: "real option \<Rightarrow> real" where
  "num_of None = 0"
| "num_of (Some v) = v"

section \<open>Trading configuration and utilities (js/config.js, sw.js)\<close>

text \<open>The literals \<open>0.01\<close>, \<open>100.0\<close> and \<open>5.0\<close> of \<open>CONFIG.TRADING\<close> as doubles.\<close>

definition MIN_VOLUME :: real where
  "MIN_VOLUME = fl (1 / 100)"

definition MAX_VOLUME :: real where
  "MAX_VOLUME = 100"

definition MAX_RISK_PERCENT :: real where
  "MAX_RISK_PERCENT = 5"

definition MAX_POSITIONS :: nat where
  "MAX_POSITIONS = 10"

definition MAX_RECONNECT_ATTEMPTS :: nat where
  "MAX_RECONNECT_ATTEMPTS = 5"

text \<open>
  \<open>TradingUtils.calculateMargin(volume, price, leverage = 100)\<close>:
  \<open>(volume * 100000 * price) / leverage\<close>, every operation on doubles.
\<close>

definition calculateMargin :: "js_num \<Rightarrow> js_num \<Rightarrow> js_num \<Rightarrow> js_num" where
  "calculateMargin vol price leverage =
     js_div (js_mul (js_mul vol (Finite 100000)) price) leverage"

section \<open>RiskManager (js/trading.js)\<close>

text \<open>The account snapshot; its numbers are finite doubles.\<close>

record account_info =
  balance :: real
  equity :: real
  usedMargin :: real
  freeMargin :: real
  marginLevel :: real
  accountProfit :: real

text \<open>
  The object \<open>getTradeParameters\<close> builds: the side is a lower-case string, the
  volume a number (\<open>NaN\<close> when the form's text does not parse), stop-loss and
  take-profit a number or \<open>null\<close>, the current price the quote's ask or bid, or \<open>null\<close>
  when no quote of the symbol is known.
\<close>

record trade_params =
  p_symbol :: string
  p_side :: string
  p_volume :: js_num
  p_stopLoss :: "js_num option"
  p_takeProfit :: "js_num option"
  p_currentPrice :: "js_num option"

record risk_manager =
  maxRiskPercent :: real
  maxPositions :: nat

definition new_RiskManager :: risk_manager where
  "new_RiskManager = \<lparr>maxRiskPercent = MAX_RISK_PERCENT, maxPositions = MAX_POSITIONS\<rparr>"

text \<open>The result \<open>{allowed: true}\<close> or \<open>{allowed: false, reason: ...}\<close>.\<close>

datatype risk_check = Allowed | Rejected string

text \<open>
  \<open>Math.abs(params.currentPrice - params.stopLoss) * params.volume * 100000\<close> and
  \<open>(riskAmount / account.balance) * 100\<close>, every operation on doubles.
\<close>

definition riskAmount :: "js_num \<Rightarrow> js_num \<Rightarrow> js_num \<Rightarrow> js_num" where
  "riskAmount price sl vol = js_mul (js_mul (js_abs (js_sub price sl)) vol) (Finite 100000)"

definition riskPercent :: "js_num \<Rightarrow> real \<Rightarrow> js_num" where
  "riskPercent amount bal = js_mul (js_div amount (Finite bal)) (Finite 100)"

text \<open>
  \<open>checkTrade(params)\<close>. It reads \<open>window.tradingEngine.positions.size\<close> (here \<open>sz\<close>)
  and \<open>window.ctraderSDK?.accountInfo\<close> (here \<open>account\<close>, \<open>None\<close> when there is none).
\<close>

definition checkTrade ::
  "risk_manager \<Rightarrow> nat \<Rightarrow> account_info option \<Rightarrow> trade_params \<Rightarrow> risk_check" where
  "checkTrade rm sz account params =
     (if sz \<ge> maxPositions rm
      then Rejected (''Maximum positions limit reached ('' @ show_nat (maxPositions rm) @ '')'')
      else if (case account of
                 None \<Rightarrow> False
               | Some a \<Rightarrow>
                   js_greater
                     (calculateMargin (p_volume params) (js_num_of (p_currentPrice params))
                        (Finite 100))
                     (Finite (freeMargin a)))
      then Rejected ''Insufficient margin''
      else
        (case account of
           None \<Rightarrow> Allowed
         | Some a \<Rightarrow>
             if js_truthy (p_stopLoss params) \<and> js_truthy (p_currentPrice params)
             then
               let amount = riskAmount (js_num_of (p_currentPrice params))
                              (js_num_of (p_stopLoss params)) (p_volume params);
                   percent = riskPercent amount (balance a)
               in if js_greater percent (Finite (maxRiskPercent rm))
                  then Rejected (''Risk too high ('' @ js_toFixed2 percent @ ''% > '' @
                                 number_text (maxRiskPercent rm) @ ''%)'')
                  else Allowed
             else Allowed))"

section \<open>TradingEngine (js/trading.js)\<close>

record validation =
  isValid :: bool
  errors :: "string list"

definition validateTrade :: "trade_params \<Rightarrow> validation" where
  "validateTrade params =
     (let e1 = (if \<not> js_truthy (Some (p_volume params)) \<or> js_le (p_volume params) (Finite 0)
                then [''Invalid volume''] else []);
          e2 = (if js_less (p_volume params) (Finite MIN_VOLUME)
                then [''Volume below minimum ('' @ number_text MIN_VOLUME @ '')''] else []);
          e3 = (if js_greater (p_volume params) (Finite MAX_VOLUME)
                then [''Volume above maximum ('' @ number_text MAX_VOLUME @ '')''] else []);
          e4 = (if js_truthy (p_stopLoss params) \<and> js_truthy (p_currentPrice params)
                then
                  let isValidSL =
                        (if p_side params = ''buy''
                         then js_less (js_num_of (p_stopLoss params)) (js_num_of (p_currentPrice params))
                         else js_greater (js_num_of (p_stopLoss params))
                                (js_num_of (p_currentPrice params)))
                  in if \<not> isValidSL then [''Invalid stop loss level''] else []
                else []);
          e5 = (if js_truthy (p_takeProfit params) \<and> js_truthy (p_currentPrice params)
                then
                  let isValidTP =
                        (if p_side params = ''buy''
                         then js_greater (js_num_of (p_takeProfit params))
                                (js_num_of (p_currentPrice params))
                         else js_less (js_num_of (p_takeProfit params))
                                (js_num_of (p_currentPrice params)))
                  in if \<not> isValidTP then [''Invalid take profit level''] else []
                else []);
          e6 = (if length (p_symbol params) < 6 then [''Invalid symbol''] else []);
          errs = e1 @ e2 @ e3 @ e4 @ e5 @ e6
      in \<lparr>isValid = (length errs = 0), errors = errs\<rparr>)"

text \<open>
  A position of the registry, and the registry \<open>this.positions\<close>: a \<open>Map\<close> from position
  id to position, kept as an association list in insertion order. \<open>Map.get\<close> is
  \<open>map_of\<close>, \<open>Map.set\<close> is \<open>AList.update\<close>, \<open>Map.delete\<close> is \<open>AList.delete\<close>, and \<open>size\<close>
  counts the keys.
\<close>

record position =
  pos_id :: string
  pos_symbol :: string
  pos_side :: string
  pos_volume :: real
  pos_entryPrice :: real
  pos_currentPrice :: real
  pos_profit :: real
  pos_stopLoss :: "real option"
  pos_takeProfit :: "real option"

type_synonym registry = "(string \<times> position) list"

definition map_size :: "registry \<Rightarrow> nat" where
  "map_size ps = length (remdups (map fst ps))"

text \<open>
  What a call returns: \<open>{success: true, ...}\<close> with its order id or message, or
  \<open>{success: false, error: ...}\<close>.
\<close>

datatype result = Success string | Failure string

fun success :: "result \<Rightarrow> bool" where
  "success (Success m) = True"
| "success (Failure e) = False"

text \<open>
  The calls that reach the SDK object \<open>window.ctraderSDK\<close>, in order:
  \<open>createMarketOrder(symbol, side, volume, stopLoss, takeProfit)\<close> and
  \<open>closePosition(positionId, volume)\<close>.
\<close>

datatype sdk_call =
    CreateMarketOrder string string js_num "js_num option" "js_num option"
  | ClosePosition string "real option"

datatype notification = ErrorNote string | SuccessNote string

text \<open>
  An entry of \<open>tradingHistory\<close>: an executed trade with its order id, or the record
  \<open>handleTradeError\<close> pushes (symbol, error; side \<open>unknown\<close>, volume 0, status \<open>failed\<close>).
  An entry of \<open>performanceTracker.trades\<close> is the pair of the parameters and the result.
\<close>

datatype history_entry =
    Executed trade_params string
  | FailedTrade string string

record engine =
  engineSymbol :: string
  defaultVolume :: js_num
  positions :: registry
  tradingHistory :: "history_entry list"
  trades :: "(trade_params \<times> result) list"
  notifications :: "notification list"
  sdkCalls :: "sdk_call list"
  tradingButtonsEnabled :: bool

text \<open>
  What one call meets outside the engine: whether \<open>window.ctraderSDK\<close> exists and
  \<open>isReady()\<close>, the account it holds, the quote \<open>getCurrentQuote\<close> returns for the
  engine's symbol, the answer of the \<open>confirm\<close> dialog, what the SDK call returns, the
  draw of \<open>Math.random()\<close>, the clock of the mock execution, and the built-in
  \<open>parseFloat\<close> on the text of a form field (\<open>NaN\<close> when the text is no number).
\<close>

record env =
  sdkReady :: bool
  accountInfo :: "account_info option"
  currentQuote :: "quote option"
  parseFloat :: "string \<Rightarrow> js_num"
  confirmAnswer :: bool
  sdkResult :: result
  randomDraw :: real
  clock :: nat

definition showTradeError :: "string \<Rightarrow> engine \<Rightarrow> engine" where
  "showTradeError msg eng = eng\<lparr>notifications := notifications eng @ [ErrorNote msg]\<rparr>"

definition showTradeSuccess :: "string \<Rightarrow> engine \<Rightarrow> engine" where
  "showTradeSuccess msg eng = eng\<lparr>notifications := notifications eng @ [SuccessNote msg]\<rparr>"

definition setTradingButtonsEnabled :: "bool \<Rightarrow> engine \<Rightarrow> engine" where
  "setTradingButtonsEnabled b eng = eng\<lparr>tradingButtonsEnabled := b\<rparr>"

text \<open>\<open>PerformanceTracker.recordTrade(params, result)\<close> pushes one trade record.\<close>

definition recordTrade :: "trade_params \<Rightarrow> result \<Rightarrow> engine \<Rightarrow> engine" where
  "recordTrade params r eng = eng\<lparr>trades := trades eng @ [(params, r)]\<rparr>"

definition mockTradeExecution :: "env \<Rightarrow> trade_params \<Rightarrow> result" where
  "mockTradeExecution ev params =
     (if randomDraw ev > fl (1 / 10) then Success (''MOCK_'' @ show_nat (clock ev))
      else Failure ''Mock execution failed - insufficient margin'')"

text \<open>
  \<open>executeMarketOrder(params)\<close>: the mock execution when the SDK is absent or not
  ready, otherwise the call of \<open>createMarketOrder\<close>, which is logged.
\<close>

definition executeMarketOrder :: "env \<Rightarrow> trade_params \<Rightarrow> engine \<Rightarrow> result \<times> engine" where
  "executeMarketOrder ev params eng =
     (if \<not> sdkReady ev then (mockTradeExecution ev params, eng)
      else (sdkResult ev,
            eng\<lparr>sdkCalls := sdkCalls eng @
              [CreateMarketOrder (p_symbol params) (p_side params) (p_volume params)
                 (p_stopLoss params) (p_takeProfit params)]\<rparr>))"

definition handleTradeSuccess :: "string \<Rightarrow> trade_params \<Rightarrow> engine \<Rightarrow> engine" where
  "handleTradeSuccess orderId params eng =
     recordTrade params (Success orderId)
       (eng\<lparr>tradingHistory := tradingHistory eng @ [Executed params orderId]\<rparr>)"

definition handleTradeError :: "string \<Rightarrow> engine \<Rightarrow> engine" where
  "handleTradeError err eng =
     eng\<lparr>tradingHistory := tradingHistory eng @ [FailedTrade (engineSymbol eng) err]\<rparr>"

text \<open>
  \<open>executeTrade(side, customParams)\<close> is \<open>getTradeParameters\<close> followed by the rest of
  its body. \<open>executeTrade\<close> below is that rest, on the object \<open>params\<close> which
  \<open>getTradeParameters\<close> returned; \<open>executeTrade_request\<close> further down is the whole
  call. Every return passes the \<open>finally\<close> block, which enables the trading buttons
  again. No step of the model throws, so the \<open>catch\<close> block has no branch here.
\<close>

definition executeTrade :: "env \<Rightarrow> trade_params \<Rightarrow> engine \<Rightarrow> result \<times> engine" where
  "executeTrade ev params eng =
     (let validation = validateTrade params
      in if \<not> isValid validation
         then (Failure (join_comma (errors validation)),
               setTradingButtonsEnabled True
                 (showTradeError (join_comma (errors validation)) eng))
         else
           (case checkTrade new_RiskManager (map_size (positions eng)) (accountInfo ev) params of
              Rejected reason \<Rightarrow>
                (Failure reason, setTradingButtonsEnabled True (showTradeError reason eng))
            | Allowed \<Rightarrow>
                if js_greater (p_volume params) (Finite 1) \<and> \<not> confirmAnswer ev
                then (Failure ''Trade cancelled by user'', setTradingButtonsEnabled True eng)
                else
                  (case executeMarketOrder ev params (setTradingButtonsEnabled False eng) of
                     (Success orderId, eng1) \<Rightarrow>
                       (Success orderId,
                        setTradingButtonsEnabled True
                          (showTradeSuccess (toUpperCase (p_side params) @ '' order executed successfully'')
                             (recordTrade params (Success orderId)
                                (handleTradeSuccess orderId params eng1))))
                   | (Failure err, eng1) \<Rightarrow>
                       (Failure err,
                        setTradingButtonsEnabled True
                          (showTradeError err (handleTradeError err eng1))))))"






text \<open>
  \<open>closePosition(positionId, volume = null)\<close>, one call from start to end with no other
  handler running at its \<open>await\<close>. An unknown id throws \<open>Position not found\<close>, which the
  \<open>catch\<close> turns into a failure. \<open>requestClose\<close> is the assignment of \<open>result\<close>: the
  call of the SDK's \<open>closePosition\<close> (logged) when the SDK is ready, the mock success
  otherwise. After a success a falsy volume (\<open>null\<close> or 0) deletes the position; any
  other volume is subtracted from the position's volume, and the position is deleted
  when the rest is not positive.
\<close>

definition requestClose :: "env \<Rightarrow> string \<Rightarrow> real option \<Rightarrow> engine \<Rightarrow> result \<times> engine" where
  "requestClose ev positionId vol eng =
     (if sdkReady ev
      then (sdkResult ev, eng\<lparr>sdkCalls := sdkCalls eng @ [ClosePosition positionId vol]\<rparr>)
      else (Success ''Mock position closed successfully'', eng))"

definition closePosition :: "env \<Rightarrow> string \<Rightarrow> real option \<Rightarrow> engine \<Rightarrow> result \<times> engine" where
  "closePosition ev positionId vol eng =
     (case map_of (positions eng) positionId of
        None \<Rightarrow> (Failure ''Position not found'', showTradeError ''Failed to close position'' eng)
      | Some pos \<Rightarrow>
          (case requestClose ev positionId vol eng of
             (Success m, eng1) \<Rightarrow>
               (let eng2 = showTradeSuccess ''Position closed successfully'' eng1;
                    pos' = pos\<lparr>pos_volume := pos_volume pos - num_of vol\<rparr>
                in if \<not> truthy vol
                   then (Success m, eng2\<lparr>positions := AList.delete positionId (positions eng2)\<rparr>)
                   else if pos_volume pos' \<le> 0
                   then (Success m, eng2\<lparr>positions := AList.delete positionId (positions eng2)\<rparr>)
                   else (Success m, eng2\<lparr>positions := AList.update positionId pos' (positions eng2)\<rparr>))
           | (Failure err, eng1) \<Rightarrow>
               (Failure err,
                showTradeError (if err = [] then ''Failed to close position'' else err) eng1)))"

text \<open>The registry holds no position whose volume is zero or negative.\<close>

definition positive_volumes :: "registry \<Rightarrow> bool" where
  "positive_volumes ps = list_all (\<lambda>(k, p). 0 < pos_volume p) ps"

section \<open>CTraderSDK: the connection (js/trading.js)\<close>

text \<open>
  The connection state is the flag \<open>isConnected\<close>, the counter \<open>reconnectAttempts\<close>, the
  status last given to \<open>updateConnectionStatus\<close>, whether the heartbeat interval runs,
  and how many reconnections \<open>handleReconnection\<close> has scheduled with \<open>setTimeout\<close>.
\<close>

datatype conn_status = NoStatus | Connecting | Connected | Disconnected | ConnError | Failed

record sdk =
  isConnected :: bool
  reconnectAttempts :: nat
  status :: conn_status
  heartbeat :: bool
  scheduledReconnects :: nat

definition new_sdk :: sdk where
  "new_sdk = \<lparr>isConnected = False, reconnectAttempts = 0, status = NoStatus,
              heartbeat = False, scheduledReconnects = 0\<rparr>"

text \<open>The handler of the adapter's \<open>connect\<close> event.\<close>

definition on_connect :: "sdk \<Rightarrow> sdk" where
  "on_connect s = s\<lparr>isConnected := True, reconnectAttempts := 0, status := Connected, heartbeat := True\<rparr>"

text \<open>\<open>handleReconnection()\<close>: give up at the limit, otherwise count and schedule.\<close>

definition handleReconnection :: "sdk \<Rightarrow> sdk" where
  "handleReconnection s =
     (if reconnectAttempts s \<ge> MAX_RECONNECT_ATTEMPTS then s\<lparr>status := Failed\<rparr>
      else s\<lparr>reconnectAttempts := reconnectAttempts s + 1,
             scheduledReconnects := scheduledReconnects s + 1\<rparr>)"

text \<open>The handler of the adapter's \<open>disconnect\<close> event.\<close>

definition on_disconnect :: "sdk \<Rightarrow> sdk" where
  "on_disconnect s =
     handleReconnection (s\<lparr>isConnected := False, status := Disconnected, heartbeat := False\<rparr>)"

text \<open>
  \<open>handleConnectionError\<close> (the adapter's \<open>error\<close> event, or a rejected \<open>connect()\<close>), and
  the start of \<open>connect()\<close>, which a fired reconnection timer or a caller runs.
\<close>

definition handleConnectionError :: "sdk \<Rightarrow> sdk" where
  "handleConnectionError s = s\<lparr>isConnected := False, status := ConnError\<rparr>"

definition connect :: "sdk \<Rightarrow> sdk" where
  "connect s = s\<lparr>status := Connecting\<rparr>"

datatype sdk_event = ConnectEvent | DisconnectEvent | ErrorEvent | TimerFired | ManualConnect

fun sdk_step :: "sdk \<Rightarrow> sdk_event \<Rightarrow> sdk" where
  "sdk_step s ConnectEvent = on_connect s"
| "sdk_step s DisconnectEvent = on_disconnect s"
| "sdk_step s ErrorEvent = handleConnectionError s"
| "sdk_step s TimerFired = connect s"
| "sdk_step s ManualConnect = connect s"

definition sdk_run :: "sdk \<Rightarrow> sdk_event list \<Rightarrow> sdk" where
  "sdk_run s evs = foldl sdk_step s evs"


section \<open>Concrete inputs\<close>

text \<open>
  States and requests the theorems are run on: a EURUSD quote, a chart whose two
  series are full, the five-point series of the specification's example, the series
  of the doubles 0.1, 0.2, 0.3, a quote of doubles, \<open>parseFloat\<close> on the two texts used
  here (it stands for the browser's function on these texts only), the mock
  account of \<open>initMockMode\<close> (and one with little free margin), the request of the specification's risk example, and an
  engine that holds the first mock position of \<open>loadMockPositions\<close>, with an
  environment where the SDK is ready and one where it is not.
\<close>

definition eurusd_quote :: quote where
  "eurusd_quote = \<lparr>symbol = ''EURUSD'', bid = 1.0850, ask = 1.0852\<rparr>"

definition full_chart :: chart where
  "full_chart =
     \<lparr>currentSymbol = ''EURUSD'',
      priceData = replicate 1000 \<lparr>px = 0, py = 1.0850\<rparr>,
      volumeData = replicate 1000 \<lparr>px = 0, py = 500\<rparr>,
      isUpdating = False\<rparr>"

definition example_series :: "point list" where
  "example_series =
     [\<lparr>px = 10, py = 1\<rparr>, \<lparr>px = 20, py = 2\<rparr>, \<lparr>px = 30, py = 3\<rparr>,
      \<lparr>px = 40, py = 4\<rparr>, \<lparr>px = 50, py = 5\<rparr>]"

definition mock_account :: account_info where
  "mock_account =
     \<lparr>balance = 10000, equity = 10150, usedMargin = 500, freeMargin = 9650,
      marginLevel = 2030, accountProfit = 150\<rparr>"


definition risky_request :: trade_params where
  "risky_request =
     \<lparr>p_symbol = ''EURUSD'', p_side = ''buy'', p_volume = Finite 1,
      p_stopLoss = Some (Finite (fl (109 / 100))), p_takeProfit = None,
      p_currentPrice = Some (Finite (fl (11 / 10)))\<rparr>"

definition mock_position :: position where
  "mock_position =
     \<lparr>pos_id = ''MOCK_POS_1'', pos_symbol = ''EURUSD'', pos_side = ''buy'', pos_volume = 0.1,
      pos_entryPrice = 1.0845, pos_currentPrice = 1.0850, pos_profit = 5.0,
      pos_stopLoss = Some 1.0820, pos_takeProfit = Some 1.0880\<rparr>"

definition new_engine :: engine where
  "new_engine =
     \<lparr>engineSymbol = ''EURUSD'', defaultVolume = Finite (fl (1 / 100)), positions = [],
      tradingHistory = [], trades = [],
      notifications = [], sdkCalls = [], tradingButtonsEnabled = True\<rparr>"

definition mock_engine :: engine where
  "mock_engine = new_engine\<lparr>positions := [(''MOCK_POS_1'', mock_position)]\<rparr>"

definition live_quote :: quote where
  "live_quote = \<lparr>symbol = ''EURUSD'', bid = fl (10850 / 10000), ask = fl (10852 / 10000)\<rparr>"

definition sample_parseFloat :: "string \<Rightarrow> js_num" where
  "sample_parseFloat s =
     (if s = ''0.005'' then Finite (fl (5 / 1000))
      else if s = ''250'' then Finite 250
      else NaN)"

definition tenths :: "point list" where
  "tenths =
     [\<lparr>px = 10, py = fl (1 / 10)\<rparr>, \<lparr>px = 20, py = fl (2 / 10)\<rparr>,
      \<lparr>px = 30, py = fl (3 / 10)\<rparr>]"

definition live_env :: env where
  "live_env =
     \<lparr>sdkReady = True, accountInfo = Some mock_account, currentQuote = Some live_quote,
      parseFloat = sample_parseFloat, confirmAnswer = True,
      sdkResult = Success ''ORDER_1'', randomDraw = 0.5, clock = 1000\<rparr>"


definition mock_env :: env where
  "mock_env = live_env\<lparr>sdkReady := False\<rparr>"

section \<open>Properties of the bounded series\<close>

lemma length_shift: "length (shift xs) = length xs - 1"
  by (cases xs) simp_all

lemma updatePriceData_length_price:
  "length (priceData (updatePriceData now rnd q s)) =
     (case q of
        None \<Rightarrow> length (priceData s)
      | Some qt \<Rightarrow>
          if symbol qt \<noteq> currentSymbol s then length (priceData s)
          else if length (priceData s) < MAX_CHART_POINTS then Suc (length (priceData s))
          else length (priceData s))"
  by (simp add: updatePriceData_def Let_def length_shift split: option.splits)

lemma updatePriceData_bound:
  assumes "length (priceData s) \<le> MAX_CHART_POINTS"
  shows "length (priceData (updatePriceData now rnd q s)) \<le> MAX_CHART_POINTS"
  using assms by (simp add: updatePriceData_length_price split: option.splits)

lemma process_quotes_bound:
  assumes "length (priceData s) \<le> MAX_CHART_POINTS"
  shows "length (priceData (process_quotes s qs)) \<le> MAX_CHART_POINTS"
  using assms
proof (induction qs arbitrary: s)
  case Nil
  then show ?case by (simp add: process_quotes_def)
next
  case (Cons e qs)
  obtain now rnd q where e: "e = (now, rnd, q)" by (cases e) auto
  have "length (priceData (quote_step s e)) \<le> MAX_CHART_POINTS"
    using Cons.prems by (simp add: e quote_step_def updatePriceData_bound)
  from Cons.IH [OF this] show ?case by (simp add: process_quotes_def)
qed

lemma updatePriceData_accept:
  assumes "symbol qt = currentSymbol s" and "length (priceData s) \<le> MAX_CHART_POINTS"
  shows "priceData (updatePriceData now rnd (Some qt) s) =
           (if length (priceData s) < MAX_CHART_POINTS
            then priceData s @ [\<lparr>px = now, py = (bid qt + ask qt) / 2\<rparr>]
            else tl (priceData s) @ [\<lparr>px = now, py = (bid qt + ask qt) / 2\<rparr>])"
proof (cases "priceData s")
  case Nil
  then show ?thesis
    using assms by (simp add: updatePriceData_def Let_def MAX_CHART_POINTS_def)
next
  case (Cons p ps)
  then show ?thesis
    using assms by (simp add: updatePriceData_def Let_def)
qed

text \<open>
  C2. Starting with a price series within the bound, the series is at most
  \<open>MAX_CHART_POINTS\<close> = 1000 long after every update of any sequence of quotes
  (after every prefix of the sequence). An update for the chart's symbol puts its
  point at the tail; when the series was full it drops the head, and the length is
  the bound again.
\<close>

theorem C2_price_series_bounded:
  assumes "length (priceData s) \<le> MAX_CHART_POINTS"
  shows "MAX_CHART_POINTS = 1000 \<and>
         (\<forall>n \<le> length qs. length (priceData (process_quotes s (take n qs))) \<le> MAX_CHART_POINTS) \<and>
         (symbol qt = currentSymbol s \<longrightarrow>
            priceData (updatePriceData now rnd (Some qt) s) =
              (if length (priceData s) < MAX_CHART_POINTS
               then priceData s @ [\<lparr>px = now, py = (bid qt + ask qt) / 2\<rparr>]
               else tl (priceData s) @ [\<lparr>px = now, py = (bid qt + ask qt) / 2\<rparr>]) \<and>
            last (priceData (updatePriceData now rnd (Some qt) s)) =
              \<lparr>px = now, py = (bid qt + ask qt) / 2\<rparr> \<and>
            (length (priceData s) = MAX_CHART_POINTS \<longrightarrow>
               length (priceData (updatePriceData now rnd (Some qt) s)) = MAX_CHART_POINTS))"
proof (intro conjI allI impI)
  show "MAX_CHART_POINTS = 1000" by (simp add: MAX_CHART_POINTS_def)
next
  fix n
  show "length (priceData (process_quotes s (take n qs))) \<le> MAX_CHART_POINTS"
    using assms by (rule process_quotes_bound)
next
  assume acc: "symbol qt = currentSymbol s"
  show "priceData (updatePriceData now rnd (Some qt) s) =
          (if length (priceData s) < MAX_CHART_POINTS
           then priceData s @ [\<lparr>px = now, py = (bid qt + ask qt) / 2\<rparr>]
           else tl (priceData s) @ [\<lparr>px = now, py = (bid qt + ask qt) / 2\<rparr>])"
    using acc assms by (rule updatePriceData_accept)
  then show "last (priceData (updatePriceData now rnd (Some qt) s)) =
               \<lparr>px = now, py = (bid qt + ask qt) / 2\<rparr>"
    by simp
next
  assume "symbol qt = currentSymbol s" and "length (priceData s) = MAX_CHART_POINTS"
  then show "length (priceData (updatePriceData now rnd (Some qt) s)) = MAX_CHART_POINTS"
    by (simp add: updatePriceData_length_price)
qed

theorem C2_price_series_bounded_witness:
  "length (priceData full_chart) = 1000 \<and>
   length (priceData (process_quotes full_chart
             [(1, 0.5, Some eurusd_quote), (2, 0.25, Some eurusd_quote)])) \<le> 1000 \<and>
   priceData (updatePriceData 1 0.5 (Some eurusd_quote) full_chart) =
     replicate 999 \<lparr>px = 0, py = 1.0850\<rparr> @ [\<lparr>px = 1, py = 1.0851\<rparr>]"
proof -
  have len: "length (priceData full_chart) \<le> MAX_CHART_POINTS"
    by (simp add: full_chart_def MAX_CHART_POINTS_def)
  have sy: "symbol eurusd_quote = currentSymbol full_chart"
    by (simp add: full_chart_def eurusd_quote_def)
  have tl_full: "tl (replicate 1000 \<lparr>px = 0, py = 1.0850\<rparr>) = replicate 999 \<lparr>px = 0, py = 1.0850\<rparr>"
    by simp
  note main = C2_price_series_bounded [OF len,
      of "[(1, 0.5, Some eurusd_quote), (2, 0.25, Some eurusd_quote)]" eurusd_quote 1 "0.5"]
  from main have b: "MAX_CHART_POINTS = 1000" by blast
  from main have "length (priceData (process_quotes full_chart
      (take 2 [(1, 0.5, Some eurusd_quote), (2, 0.25, Some eurusd_quote)]))) \<le> MAX_CHART_POINTS"
    by (elim conjE allE [of _ 2]) simp
  then have p2: "length (priceData (process_quotes full_chart
      [(1, 0.5, Some eurusd_quote), (2, 0.25, Some eurusd_quote)])) \<le> 1000"
    by (simp add: b)
  from main sy have "priceData (updatePriceData 1 0.5 (Some eurusd_quote) full_chart) =
      (if length (priceData full_chart) < MAX_CHART_POINTS
       then priceData full_chart @ [\<lparr>px = 1, py = (bid eurusd_quote + ask eurusd_quote) / 2\<rparr>]
       else tl (priceData full_chart) @ [\<lparr>px = 1, py = (bid eurusd_quote + ask eurusd_quote) / 2\<rparr>])"
    by blast
  then have p3: "priceData (updatePriceData 1 0.5 (Some eurusd_quote) full_chart) =
      replicate 999 \<lparr>px = 0, py = 1.0850\<rparr> @ [\<lparr>px = 1, py = 1.0851\<rparr>]"
    using tl_full by (simp add: b full_chart_def eurusd_quote_def)
  have p1: "length (priceData full_chart) = 1000" by (simp add: full_chart_def)
  from p1 p2 p3 show ?thesis by blast
qed


lemma updatePriceData_same_length:
  assumes "length (priceData s) = length (volumeData s)"
  shows "length (priceData (updatePriceData now rnd q s)) =
         length (volumeData (updatePriceData now rnd q s))"
  using assms by (simp add: updatePriceData_def Let_def length_shift split: option.splits)

lemma mock_loop_lengths:
  "length (fst (mock_loop i r1 r2 now interval p prices volumes)) = length prices + Suc i \<and>
   length (snd (mock_loop i r1 r2 now interval p prices volumes)) = length volumes + Suc i"
proof (induction i arbitrary: p prices volumes)
  case 0
  show ?case by (subst (1 2) mock_loop.simps) (simp add: Let_def)
next
  case (Suc i)
  show ?case
    by (subst (1 2) mock_loop.simps) (simp add: Let_def Suc.IH)
qed

lemma loadInitialData_same_length:
  "length (priceData (loadInitialData r1 r2 now interval s)) =
   length (volumeData (loadInitialData r1 r2 now interval s))"
  by (simp add: loadInitialData_def generateMockHistoricalData_def Let_def mock_loop_lengths)

lemma chart_step_same_length:
  assumes "length (priceData s) = length (volumeData s)"
  shows "length (priceData (chart_step s ev)) = length (volumeData (chart_step s ev))"
proof (cases ev)
  case (QuoteEvent now rnd q)
  then show ?thesis using assms by (simp add: updatePriceData_same_length)
next
  case (LoadInitialData r1 r2 now interval)
  then show ?thesis by (simp add: loadInitialData_same_length)
next
  case (ChangeSymbol symb)
  then show ?thesis using assms by (simp add: changeSymbol_def)
next
  case Destroy
  then show ?thesis by (simp add: destroy_def)
qed

lemma chart_run_same_length:
  assumes "length (priceData s) = length (volumeData s)"
  shows "length (priceData (chart_run s evs)) = length (volumeData (chart_run s evs))"
  using assms
proof (induction evs arbitrary: s)
  case Nil
  then show ?case by (simp add: chart_run_def)
next
  case (Cons ev evs)
  have "length (priceData (chart_step s ev)) = length (volumeData (chart_step s ev))"
    using Cons.prems by (rule chart_step_same_length)
  from Cons.IH [OF this] show ?case by (simp add: chart_run_def)
qed

text \<open>
  C10. The price series and the volume series have the same length after every quote
  \<open>updatePriceData\<close> processes: in every state the chart reaches from its constructor
  by quotes, \<open>loadInitialData\<close>, symbol changes and \<open>destroy\<close>, and after a quote in any
  state whose two series have the same length. A quote of the chart's symbol pushes one
  point on each series and, when the price series has passed the bound, shifts both.
\<close>

theorem C10_price_and_volume_same_length:
  "length (priceData (chart_run (new_chart symb) evs)) =
     length (volumeData (chart_run (new_chart symb) evs)) \<and>
   (length (priceData s) = length (volumeData s) \<longrightarrow>
      length (priceData (updatePriceData now rnd q s)) =
        length (volumeData (updatePriceData now rnd q s))) \<and>
   (symbol qt = currentSymbol s \<longrightarrow>
      priceData (updatePriceData now rnd (Some qt) s) =
        (if length (priceData s) + 1 > MAX_CHART_POINTS
         then shift (priceData s @ [\<lparr>px = now, py = (bid qt + ask qt) / 2\<rparr>])
         else priceData s @ [\<lparr>px = now, py = (bid qt + ask qt) / 2\<rparr>]) \<and>
      volumeData (updatePriceData now rnd (Some qt) s) =
        (if length (priceData s) + 1 > MAX_CHART_POINTS
         then shift (volumeData s @ [\<lparr>px = now, py = rnd * 500 + 250\<rparr>])
         else volumeData s @ [\<lparr>px = now, py = rnd * 500 + 250\<rparr>]))"
proof (intro conjI impI)
  have "length (priceData (new_chart symb)) = length (volumeData (new_chart symb))"
    by (simp add: new_chart_def)
  then show "length (priceData (chart_run (new_chart symb) evs)) =
      length (volumeData (chart_run (new_chart symb) evs))"
    by (rule chart_run_same_length)
next
  assume "length (priceData s) = length (volumeData s)"
  then show "length (priceData (updatePriceData now rnd q s)) =
      length (volumeData (updatePriceData now rnd q s))"
    by (rule updatePriceData_same_length)
next
  assume "symbol qt = currentSymbol s"
  then show "priceData (updatePriceData now rnd (Some qt) s) =
        (if length (priceData s) + 1 > MAX_CHART_POINTS
         then shift (priceData s @ [\<lparr>px = now, py = (bid qt + ask qt) / 2\<rparr>])
         else priceData s @ [\<lparr>px = now, py = (bid qt + ask qt) / 2\<rparr>])"
    by (simp add: updatePriceData_def Let_def)
next
  assume "symbol qt = currentSymbol s"
  then show "volumeData (updatePriceData now rnd (Some qt) s) =
        (if length (priceData s) + 1 > MAX_CHART_POINTS
         then shift (volumeData s @ [\<lparr>px = now, py = rnd * 500 + 250\<rparr>])
         else volumeData s @ [\<lparr>px = now, py = rnd * 500 + 250\<rparr>])"
    by (simp add: updatePriceData_def Let_def)
qed

theorem C10_price_and_volume_same_length_witness:
  "length (priceData full_chart) = length (volumeData full_chart) \<and>
   symbol eurusd_quote = currentSymbol full_chart \<and>
   length (priceData (updatePriceData 1 0.5 (Some eurusd_quote) full_chart)) = 1000 \<and>
   length (volumeData (updatePriceData 1 0.5 (Some eurusd_quote) full_chart)) = 1000 \<and>
   last (volumeData (updatePriceData 1 0.5 (Some eurusd_quote) full_chart)) = \<lparr>px = 1, py = 500\<rparr>"
proof -
  have eq: "length (priceData full_chart) = length (volumeData full_chart)"
    by (simp add: full_chart_def)
  have sy: "symbol eurusd_quote = currentSymbol full_chart"
    by (simp add: full_chart_def eurusd_quote_def)
  have len: "length (priceData full_chart) = 1000"
    by (simp add: full_chart_def)
  note main = C10_price_and_volume_same_length
      [of "''EURUSD''" "[]" full_chart 1 "0.5" "Some eurusd_quote" eurusd_quote]
  from main eq have same: "length (priceData (updatePriceData 1 0.5 (Some eurusd_quote) full_chart)) =
      length (volumeData (updatePriceData 1 0.5 (Some eurusd_quote) full_chart))"
    by blast
  from main sy have v: "volumeData (updatePriceData 1 0.5 (Some eurusd_quote) full_chart) =
        (if length (priceData full_chart) + 1 > MAX_CHART_POINTS
         then shift (volumeData full_chart @ [\<lparr>px = 1, py = 0.5 * 500 + 250\<rparr>])
         else volumeData full_chart @ [\<lparr>px = 1, py = 0.5 * 500 + 250\<rparr>])"
    by blast
  have sh: "shift (replicate 1000 \<lparr>px = 0, py = 500\<rparr> @ [\<lparr>px = 1, py = 500\<rparr>]) =
      replicate 999 \<lparr>px = 0, py = 500\<rparr> @ [\<lparr>px = 1, py = 500\<rparr>]"
    by (simp add: numeral_eq_Suc)
  from v have v': "volumeData (updatePriceData 1 0.5 (Some eurusd_quote) full_chart) =
      replicate 999 \<lparr>px = 0, py = 500\<rparr> @ [\<lparr>px = 1, py = 500\<rparr>]"
    using sh by (simp add: len MAX_CHART_POINTS_def) (simp add: full_chart_def)
  from v' have lv: "length (volumeData (updatePriceData 1 0.5 (Some eurusd_quote) full_chart)) = 1000"
    by simp
  from v' have la: "last (volumeData (updatePriceData 1 0.5 (Some eurusd_quote) full_chart)) =
      \<lparr>px = 1, py = 500\<rparr>"
    by simp
  from eq sy same lv la show ?thesis by simp
qed


section \<open>Properties of the indicators\<close>

lemma sma_sum_eq: "sma_sum ps i period j acc = acc + (\<Sum>k = j..<period. py (ps ! (i - k)))"
proof (induction ps i period j acc rule: sma_sum.induct)
  case (1 ps i period j acc)
  show ?case
  proof (cases "j < period")
    case True
    with "1" show ?thesis
      by (subst sma_sum.simps) (simp add: sum.atLeast_Suc_lessThan add.assoc)
  next
    case False
    then show ?thesis by (subst sma_sum.simps) simp
  qed
qed

lemma sma_loop_eq:
  "sma_loop ps period i sma =
     sma @ map (\<lambda>n. \<lparr>px = px (ps ! n), py = sma_sum ps n period 0 0 / real period\<rparr>) [i..<length ps]"
proof (induction ps period i sma rule: sma_loop.induct)
  case (1 ps period i sma)
  show ?case
  proof (cases "i < length ps")
    case True
    with "1" show ?thesis
      by (subst sma_loop.simps) (simp add: upt_conv_Cons)
  next
    case False
    then show ?thesis by (subst sma_loop.simps) simp
  qed
qed

lemma window_sum:
  assumes "d + period \<le> length ps"
  shows "sum_list (map f (take period (drop d ps))) = (\<Sum>k<period. f (ps ! (d + k)))"
proof -
  have "sum_list (map f (take period (drop d ps))) =
        (\<Sum>k = 0..<length (map f (take period (drop d ps))). map f (take period (drop d ps)) ! k)"
    by (rule sum_list_sum_nth)
  also have "\<dots> = (\<Sum>k = 0..<period. f (ps ! (d + k)))"
    using assms by (intro sum.cong) auto
  finally show ?thesis by (simp add: lessThan_atLeast0)
qed

lemma trailing_sum:
  fixes f :: "point \<Rightarrow> real"
  assumes "0 < period" and "period - 1 \<le> i" and "i < length ps"
  shows "(\<Sum>k = 0..<period. f (ps ! (i - k))) =
         sum_list (map f (take period (drop (Suc i - period) ps)))"
proof -
  let ?d = "Suc i - period"
  let ?g = "\<lambda>k. f (ps ! (?d + k))"
  have le: "?d + period \<le> length ps" using assms by arith
  have "(\<Sum>k = 0..<period. f (ps ! (i - k))) = (\<Sum>k<period. ?g (period - Suc k))"
    unfolding lessThan_atLeast0
  proof (rule sum.cong)
    fix k assume "k \<in> {0..<period}"
    then have "?d + (period - Suc k) = i - k" using assms by auto
    then show "f (ps ! (i - k)) = ?g (period - Suc k)" by simp
  qed simp
  also have "\<dots> = (\<Sum>k<period. ?g k)" by (rule sum.nat_diff_reindex)
  also have "\<dots> = sum_list (map f (take period (drop ?d ps)))"
    by (rule window_sum [OF le, symmetric])
  finally show ?thesis .
qed

lemma sma_sum_mean:
  assumes "0 < period" and "period - 1 \<le> i" and "i < length ps"
  shows "sma_sum ps i period 0 0 / real period = spec_mean (spec_window ps period i)"
proof -
  have len: "length (spec_window ps period i) = period"
    using assms by (simp add: spec_window_def)
  have "sma_sum ps i period 0 0 = sum_list (spec_window ps period i)"
    using trailing_sum [OF assms, of py] by (simp add: sma_sum_eq spec_window_def)
  then show ?thesis by (simp add: spec_mean_def len)
qed

lemma calculateSMA_eq:
  assumes "0 < period" and "period \<le> length ps"
  shows "calculateSMA ps period =
     Inr (map (\<lambda>n. \<lparr>px = px (ps ! n), py = spec_mean (spec_window ps period n)\<rparr>)
            [period - 1..<length ps])"
proof -
  have "map (\<lambda>n. \<lparr>px = px (ps ! n), py = sma_sum ps n period 0 0 / real period\<rparr>) [period - 1..<length ps]
      = map (\<lambda>n. \<lparr>px = px (ps ! n), py = spec_mean (spec_window ps period n)\<rparr>) [period - 1..<length ps]"
    using assms by (intro map_cong) (auto simp: sma_sum_mean)
  then show ?thesis
    using assms by (simp add: calculateSMA_def sma_loop_eq)
qed




lemma ema_first_sum_foldl:
  assumes "period \<le> length ps" and "i \<le> period"
  shows "ema_first_sum rnd ps period i acc =
         foldl (\<lambda>a v. rnd (a + v)) acc (map py (take (period - i) (drop i ps)))"
  using assms
proof (induction rnd ps period i acc rule: ema_first_sum.induct)
  case (1 rnd ps period i acc)
  show ?case
  proof (cases "i < period")
    case False
    with "1.prems" have "period - i = 0" by simp
    with False show ?thesis by (subst ema_first_sum.simps) simp
  next
    case True
    then have il: "i < length ps" using "1.prems" by simp
    have split: "take (period - i) (drop i ps) =
        ps ! i # take (period - Suc i) (drop (Suc i) ps)"
    proof -
      have "period - i = Suc (period - Suc i)" using True by simp
      moreover have "drop i ps = ps ! i # drop (Suc i) ps"
        using il by (simp add: Cons_nth_drop_Suc)
      ultimately show ?thesis by simp
    qed
    have "Suc i \<le> period" using True by simp
    from "1.IH" [OF True "1.prems"(1) this]
    have "ema_first_sum rnd ps period (Suc i) (rnd (acc + py (ps ! i))) =
        foldl (\<lambda>a v. rnd (a + v)) (rnd (acc + py (ps ! i)))
          (map py (take (period - Suc i) (drop (Suc i) ps)))" .
    then show ?thesis
      using True by (subst ema_first_sum.simps) (simp add: split)
  qed
qed

lemma ema_first_sum_rounded:
  assumes "period \<le> length ps"
  shows "ema_first_sum rnd ps period 0 0 = spec_rounded_sum rnd (map py (take period ps))"
  using ema_first_sum_foldl [OF assms, of 0 rnd 0] by (simp add: spec_rounded_sum_def)

lemma foldl_add_sum_list: "foldl (\<lambda>a v. a + v) a vs = a + sum_list (vs :: real list)"
  by (induction vs arbitrary: a) simp_all

lemma spec_rounded_sum_exact: "spec_rounded_sum (\<lambda>x. x) vs = sum_list vs"
  by (simp add: spec_rounded_sum_def foldl_add_sum_list)

lemma sma_sum_rounded_exact: "sma_sum_rounded (\<lambda>x. x) ps i period j acc = sma_sum ps i period j acc"
proof (induction ps i period j acc rule: sma_sum.induct)
  case (1 ps i period j acc)
  show ?case
  proof (cases "j < period")
    case True
    with "1" show ?thesis
      by (subst sma_sum_rounded.simps, subst sma_sum.simps) simp
  next
    case False
    then show ?thesis
      by (subst sma_sum_rounded.simps, subst sma_sum.simps) simp
  qed
qed

lemma ema_loop_props:
  assumes "ema \<noteq> []"
  shows "\<exists>ys. ema_loop rnd ps m i ema = ema @ ys \<and> length ys = length ps - i \<and>
           (\<forall>k < length ys.
              px ((ema @ ys) ! (length ema + k)) = px (ps ! (i + k)) \<and>
              py ((ema @ ys) ! (length ema + k)) =
                rnd (rnd (rnd (py (ps ! (i + k)) - py ((ema @ ys) ! (length ema + k - 1))) * m)
                  + py ((ema @ ys) ! (length ema + k - 1))))"
  using assms
proof (induction rnd ps m i ema rule: ema_loop.induct)
  case (1 rnd ps m i ema)
  show ?case
  proof (cases "i < length ps")
    case False
    then have "ema_loop rnd ps m i ema = ema" by (subst ema_loop.simps) simp
    with False show ?thesis by simp
  next
    case True
    define v where "v = rnd (rnd (rnd (py (ps ! i) - py (last ema)) * m) + py (last ema))"
    define new where "new = \<lparr>px = px (ps ! i), py = v\<rparr>"
    have unfold: "ema_loop rnd ps m i ema = ema_loop rnd ps m (Suc i) (ema @ [new])"
      using True by (subst ema_loop.simps) (simp add: Let_def v_def new_def)
    have "ema @ [new] \<noteq> []" by simp
    from "1.IH" [OF True v_def this [unfolded new_def]]
    obtain ys where ys: "ema_loop rnd ps m (Suc i) (ema @ [new]) = (ema @ [new]) @ ys"
      "length ys = length ps - Suc i"
      "\<forall>k < length ys.
              px (((ema @ [new]) @ ys) ! (length (ema @ [new]) + k)) = px (ps ! (Suc i + k)) \<and>
              py (((ema @ [new]) @ ys) ! (length (ema @ [new]) + k)) =
                rnd (rnd (rnd (py (ps ! (Suc i + k)) -
                       py (((ema @ [new]) @ ys) ! (length (ema @ [new]) + k - 1))) * m)
                  + py (((ema @ [new]) @ ys) ! (length (ema @ [new]) + k - 1)))"
      unfolding new_def by blast
    let ?zs = "new # ys"
    have r: "ema_loop rnd ps m i ema = ema @ ?zs" using unfold ys(1) by simp
    have l: "length ?zs = length ps - i" using ys(2) True by simp
    have "\<forall>k < length ?zs.
              px ((ema @ ?zs) ! (length ema + k)) = px (ps ! (i + k)) \<and>
              py ((ema @ ?zs) ! (length ema + k)) =
                rnd (rnd (rnd (py (ps ! (i + k)) - py ((ema @ ?zs) ! (length ema + k - 1))) * m)
                  + py ((ema @ ?zs) ! (length ema + k - 1)))"
    proof (intro allI impI)
      fix k assume k: "k < length ?zs"
      show "px ((ema @ ?zs) ! (length ema + k)) = px (ps ! (i + k)) \<and>
              py ((ema @ ?zs) ! (length ema + k)) =
                rnd (rnd (rnd (py (ps ! (i + k)) - py ((ema @ ?zs) ! (length ema + k - 1))) * m)
                  + py ((ema @ ?zs) ! (length ema + k - 1)))"
      proof (cases k)
        case 0
        have "(ema @ ?zs) ! (length ema - 1) = last ema"
          using "1.prems" by (simp add: nth_append last_conv_nth)
        then show ?thesis using 0 by (simp add: new_def v_def)
      next
        case (Suc j)
        then have j: "j < length ys" using k by simp
        have e: "(ema @ [new]) @ ys = ema @ ?zs" by simp
        from ys(3) [rule_format, OF j] show ?thesis
          unfolding e by (simp add: Suc)
      qed
    qed
    with r l show ?thesis by blast
  qed
qed

lemma calculateEMA_props:
  assumes "0 < period" and "period \<le> length ps"
  shows "\<exists>ema. calculateEMA rnd ps period = Inr ema \<and>
           length ema = length ps - (period - 1) \<and>
           ema ! 0 = \<lparr>px = px (ps ! (period - 1)),
                      py = rnd (spec_rounded_sum rnd (map py (take period ps)) / real period)\<rparr> \<and>
           (\<forall>k. 0 < k \<and> k < length ema \<longrightarrow>
              px (ema ! k) = px (ps ! (k + (period - 1))) \<and>
              py (ema ! k) =
                rnd (rnd (rnd (py (ps ! (k + (period - 1))) - py (ema ! (k - 1))) *
                          rnd (2 / rnd (real period + 1)))
                  + py (ema ! (k - 1))))"
proof -
  define first where
    "first = \<lparr>px = px (ps ! (period - 1)), py = rnd (ema_first_sum rnd ps period 0 0 / real period)\<rparr>"
  define m :: real where "m = rnd (2 / rnd (real period + 1))"
  have c: "calculateEMA rnd ps period = Inr (ema_loop rnd ps m period [first])"
    using assms by (simp add: calculateEMA_def Let_def first_def m_def)
  have "[first] \<noteq> []" by simp
  from ema_loop_props [OF this, of rnd ps m period]
  obtain ys where ys: "ema_loop rnd ps m period [first] = [first] @ ys"
    "length ys = length ps - period"
    "\<forall>k < length ys.
        px (([first] @ ys) ! (length [first] + k)) = px (ps ! (period + k)) \<and>
        py (([first] @ ys) ! (length [first] + k)) =
          rnd (rnd (rnd (py (ps ! (period + k)) - py (([first] @ ys) ! (length [first] + k - 1))) * m)
            + py (([first] @ ys) ! (length [first] + k - 1)))"
    by blast
  let ?ema = "first # ys"
  have r: "calculateEMA rnd ps period = Inr ?ema" using c ys(1) by simp
  have l: "length ?ema = length ps - (period - 1)" using ys(2) assms by simp
  have f: "?ema ! 0 = \<lparr>px = px (ps ! (period - 1)),
                      py = rnd (spec_rounded_sum rnd (map py (take period ps)) / real period)\<rparr>"
    using ema_first_sum_rounded [OF assms(2), of rnd] by (simp add: first_def)
  have rec: "\<forall>k. 0 < k \<and> k < length ?ema \<longrightarrow>
              px (?ema ! k) = px (ps ! (k + (period - 1))) \<and>
              py (?ema ! k) =
                rnd (rnd (rnd (py (ps ! (k + (period - 1))) - py (?ema ! (k - 1))) * m)
                  + py (?ema ! (k - 1)))"
  proof (intro allI impI)
    fix k assume k: "0 < k \<and> k < length ?ema"
    then obtain j where j: "k = Suc j" by (cases k) auto
    with k have jl: "j < length ys" by simp
    have idx: "period + j = k + (period - 1)" using j assms by simp
    from ys(3) [rule_format, OF jl]
    show "px (?ema ! k) = px (ps ! (k + (period - 1))) \<and>
              py (?ema ! k) =
                rnd (rnd (rnd (py (ps ! (k + (period - 1))) - py (?ema ! (k - 1))) * m)
                  + py (?ema ! (k - 1)))"
      unfolding idx by (simp add: j)
  qed
  from r l f rec show ?thesis unfolding m_def by blast
qed

lemma first_mean_exact:
  assumes "0 < period" and "period \<le> length ps"
  shows "spec_rounded_sum (\<lambda>x. x) (map py (take period ps)) / real period =
         spec_mean (spec_window ps period (period - 1))"
proof -
  define w where "w = spec_window ps period (period - 1)"
  have sw: "w = map py (take period ps)"
    using assms by (simp add: w_def spec_window_def)
  have len: "length w = period"
    using assms by (simp add: sw)
  have "spec_rounded_sum (\<lambda>x. x) (map py (take period ps)) / real period = spec_mean w"
    by (simp add: spec_rounded_sum_exact spec_mean_def len sw [symmetric])
  then show ?thesis unfolding w_def .
qed

text \<open>
  C5 as stated fails on doubles: for the three prices 0.1, 0.2, 0.3 and period 3,
  \<open>calculateEMA\<close> adds the prices from the first to the last and its only value is
  0.20000000000000004, while \<open>calculateSMA\<close> adds them from the last to the first and
  its value at the same index is 0.19999999999999998.
\<close>

theorem C5_first_value_counterexample:
  "calculateEMA fl tenths 3 =
     Inr [\<lparr>px = 30, py = 7205759403792795 / 36028797018963968\<rparr>] \<and>
   sma_value_rounded fl tenths 3 2 = 7205759403792793 / 36028797018963968 \<and>
   (7205759403792795 / 36028797018963968 :: real) > 7205759403792793 / 36028797018963968"
  by code_simp

text \<open>
  C5, amended. \<open>calculateEMA\<close> returns the empty series when the series has fewer
  points than the period. For a period of at least one point and a series of at least
  that many, with every operation rounded by \<open>rnd\<close>: the first point has the time of
  index \<open>period - 1\<close> and the value of the first \<open>period\<close> prices added from the first to
  the last, divided by the period; every later point, at index \<open>i = k + period - 1\<close> of
  the prices, has the value \<open>(price[i] - ema[k-1]) * m + ema[k-1]\<close> with
  \<open>m = 2 / (period + 1)\<close>, each operation rounded. In exact arithmetic (\<open>rnd\<close> the
  identity) the first point is the first point of \<open>calculateSMA\<close> with the same period
  and the recurrence holds exactly; the rounded value of \<open>calculateSMA\<close> is then the
  one of the source's loops.
\<close>

theorem C5_calculateEMA:
  "(length ps < period \<longrightarrow> calculateEMA rnd ps period = Inr []) \<and>
   (0 < period \<and> period \<le> length ps \<longrightarrow>
      (\<exists>ema. calculateEMA rnd ps period = Inr ema \<and>
         length ema = length ps - (period - 1) \<and>
         px (ema ! 0) = px (ps ! (period - 1)) \<and>
         py (ema ! 0) = rnd (spec_rounded_sum rnd (map py (take period ps)) / real period) \<and>
         (\<forall>k. 0 < k \<and> k < length ema \<longrightarrow>
            px (ema ! k) = px (ps ! (k + (period - 1))) \<and>
            py (ema ! k) =
              rnd (rnd (rnd (py (ps ! (k + (period - 1))) - py (ema ! (k - 1))) *
                        rnd (2 / rnd (real period + 1)))
                + py (ema ! (k - 1)))))) \<and>
   (0 < period \<and> period \<le> length ps \<longrightarrow>
      (\<exists>ema sma. calculateEMA (\<lambda>x. x) ps period = Inr ema \<and> calculateSMA ps period = Inr sma \<and>
         length ema = length ps - (period - 1) \<and>
         ema ! 0 = sma ! 0 \<and>
         px (ema ! 0) = px (ps ! (period - 1)) \<and>
         (\<forall>k. 0 < k \<and> k < length ema \<longrightarrow>
            px (ema ! k) = px (ps ! (k + (period - 1))) \<and>
            py (ema ! k) =
              (py (ps ! (k + (period - 1))) - py (ema ! (k - 1))) * (2 / (real period + 1))
                + py (ema ! (k - 1))))) \<and>
   sma_value_rounded (\<lambda>x. x) ps period i = sma_sum ps i period 0 0 / real period"
proof (intro conjI impI)
  assume "length ps < period"
  then show "calculateEMA rnd ps period = Inr []" by (simp add: calculateEMA_def)
next
  assume a: "0 < period \<and> period \<le> length ps"
  then have p: "0 < period" and q: "period \<le> length ps" by simp_all
  from calculateEMA_props [OF p q, of rnd]
  obtain ema where e: "calculateEMA rnd ps period = Inr ema"
    "length ema = length ps - (period - 1)"
    "ema ! 0 = \<lparr>px = px (ps ! (period - 1)),
                py = rnd (spec_rounded_sum rnd (map py (take period ps)) / real period)\<rparr>"
    "\<forall>k. 0 < k \<and> k < length ema \<longrightarrow>
              px (ema ! k) = px (ps ! (k + (period - 1))) \<and>
              py (ema ! k) =
                rnd (rnd (rnd (py (ps ! (k + (period - 1))) - py (ema ! (k - 1))) *
                          rnd (2 / rnd (real period + 1)))
                  + py (ema ! (k - 1)))"
    by blast
  have x0: "px (ema ! 0) = px (ps ! (period - 1))" using e(3) by simp
  have y0: "py (ema ! 0) = rnd (spec_rounded_sum rnd (map py (take period ps)) / real period)"
    using e(3) by simp
  from e(1) e(2) x0 y0 e(4)
  show "\<exists>ema. calculateEMA rnd ps period = Inr ema \<and>
         length ema = length ps - (period - 1) \<and>
         px (ema ! 0) = px (ps ! (period - 1)) \<and>
         py (ema ! 0) = rnd (spec_rounded_sum rnd (map py (take period ps)) / real period) \<and>
         (\<forall>k. 0 < k \<and> k < length ema \<longrightarrow>
            px (ema ! k) = px (ps ! (k + (period - 1))) \<and>
            py (ema ! k) =
              rnd (rnd (rnd (py (ps ! (k + (period - 1))) - py (ema ! (k - 1))) *
                        rnd (2 / rnd (real period + 1)))
                + py (ema ! (k - 1))))"
    by (intro exI [of _ ema]) simp
next
  assume a: "0 < period \<and> period \<le> length ps"
  then have p: "0 < period" and q: "period \<le> length ps" by simp_all
  from calculateEMA_props [OF p q, of "\<lambda>x. x"]
  obtain ema where e: "calculateEMA (\<lambda>x. x) ps period = Inr ema"
    "length ema = length ps - (period - 1)"
    "ema ! 0 = \<lparr>px = px (ps ! (period - 1)),
                py = spec_rounded_sum (\<lambda>x. x) (map py (take period ps)) / real period\<rparr>"
    "\<forall>k. 0 < k \<and> k < length ema \<longrightarrow>
              px (ema ! k) = px (ps ! (k + (period - 1))) \<and>
              py (ema ! k) =
                (py (ps ! (k + (period - 1))) - py (ema ! (k - 1))) * (2 / (real period + 1))
                  + py (ema ! (k - 1))"
    by blast
  have e3: "ema ! 0 = \<lparr>px = px (ps ! (period - 1)),
                py = spec_mean (spec_window ps period (period - 1))\<rparr>"
    using e(3) first_mean_exact [OF p q] by simp
  let ?sma = "map (\<lambda>n. \<lparr>px = px (ps ! n), py = spec_mean (spec_window ps period n)\<rparr>)
            [period - 1..<length ps]"
  have s: "calculateSMA ps period = Inr ?sma" using p q by (rule calculateSMA_eq)
  have "period - 1 < length ps" using p q by simp
  then have s0: "?sma ! 0 = \<lparr>px = px (ps ! (period - 1)),
                py = spec_mean (spec_window ps period (period - 1))\<rparr>"
    by simp
  have x0: "px (ema ! 0) = px (ps ! (period - 1))" using e3 by simp
  from e(1) s e(2) e3 s0 x0 e(4)
  show "\<exists>ema sma. calculateEMA (\<lambda>x. x) ps period = Inr ema \<and> calculateSMA ps period = Inr sma \<and>
         length ema = length ps - (period - 1) \<and>
         ema ! 0 = sma ! 0 \<and>
         px (ema ! 0) = px (ps ! (period - 1)) \<and>
         (\<forall>k. 0 < k \<and> k < length ema \<longrightarrow>
            px (ema ! k) = px (ps ! (k + (period - 1))) \<and>
            py (ema ! k) =
              (py (ps ! (k + (period - 1))) - py (ema ! (k - 1))) * (2 / (real period + 1))
                + py (ema ! (k - 1)))"
    by (intro exI [of _ ema] exI [of _ ?sma]) simp
next
  show "sma_value_rounded (\<lambda>x. x) ps period i = sma_sum ps i period 0 0 / real period"
    by (simp add: sma_value_rounded_def sma_sum_rounded_exact)
qed

theorem C5_calculateEMA_witness:
  "length (take 2 example_series) < 3 \<and> calculateEMA fl (take 2 example_series) 3 = Inr [] \<and>
   0 < (3::nat) \<and> 3 \<le> length tenths \<and>
   (\<exists>ema. calculateEMA fl tenths 3 = Inr ema \<and> length ema = 1 \<and>
      py (ema ! 0) = fl (spec_rounded_sum fl (map py (take 3 tenths)) / real 3)) \<and>
   fl (spec_rounded_sum fl (map py (take 3 tenths)) / real 3) =
     7205759403792795 / 36028797018963968 \<and>
   3 \<le> length example_series \<and>
   (\<exists>ema. calculateEMA fl example_series 3 = Inr ema \<and> length ema = 3 \<and>
      py (ema ! 1) =
        fl (fl (fl (py (example_series ! 3) - py (ema ! 0)) * fl (2 / fl (real 3 + 1)))
          + py (ema ! 0))) \<and>
   calculateEMA fl example_series 3 =
     Inr [\<lparr>px = 30, py = 2\<rparr>, \<lparr>px = 40, py = 3\<rparr>, \<lparr>px = 50, py = 4\<rparr>] \<and>
   (\<exists>ema sma. calculateEMA (\<lambda>x. x) example_series 3 = Inr ema \<and>
      calculateSMA example_series 3 = Inr sma \<and>
      length ema = 3 \<and> ema ! 0 = sma ! 0 \<and>
      py (ema ! 1) = (py (example_series ! 3) - py (ema ! 0)) * (2 / (real 3 + 1)) + py (ema ! 0))"
proof -
  have short: "length (take 2 example_series) < 3" by (simp add: example_series_def)
  have long: "0 < (3::nat) \<and> 3 \<le> length example_series" by (simp add: example_series_def)
  have long_t: "0 < (3::nat) \<and> 3 \<le> length tenths" by (simp add: tenths_def)
  have i3: "(1::nat) + (3 - 1) = 3" and i0: "(1::nat) - 1 = 0" by simp_all
  note short_case = C5_calculateEMA [of "take 2 example_series" 3 fl, THEN conjunct1,
      rule_format, OF short]
  note tenths_case = C5_calculateEMA [of tenths 3 fl, THEN conjunct2, THEN conjunct1,
      rule_format, OF long_t]
  note long_case = C5_calculateEMA [of example_series 3 fl, THEN conjunct2, THEN conjunct1,
      rule_format, OF long]
  note exact_case = C5_calculateEMA [of example_series 3 fl, THEN conjunct2, THEN conjunct2,
      THEN conjunct1, rule_format, OF long]
  from tenths_case obtain emt where t1: "calculateEMA fl tenths 3 = Inr emt"
    and t2: "length emt = length tenths - (3 - 1)"
    and t3: "py (emt ! 0) = fl (spec_rounded_sum fl (map py (take 3 tenths)) / real 3)"
    by (elim exE conjE)
  have tl: "length emt = 1" using t2 by (simp add: tenths_def)
  have ext: "\<exists>ema. calculateEMA fl tenths 3 = Inr ema \<and> length ema = 1 \<and>
      py (ema ! 0) = fl (spec_rounded_sum fl (map py (take 3 tenths)) / real 3)"
    using t1 tl t3 by (intro exI [of _ emt]) simp
  have tv: "fl (spec_rounded_sum fl (map py (take 3 tenths)) / real 3) =
      7205759403792795 / 36028797018963968"
    by code_simp
  from long_case obtain emf where f1: "calculateEMA fl example_series 3 = Inr emf"
    and f2: "length emf = length example_series - (3 - 1)"
    and f5: "\<forall>k. 0 < k \<and> k < length emf \<longrightarrow>
            px (emf ! k) = px (example_series ! (k + (3 - 1))) \<and>
            py (emf ! k) =
              fl (fl (fl (py (example_series ! (k + (3 - 1))) - py (emf ! (k - 1))) *
                      fl (2 / fl (real 3 + 1)))
                + py (emf ! (k - 1)))"
    by (elim exE conjE)
  have fl3: "length emf = 3" using f2 by (simp add: example_series_def)
  have "py (emf ! 1) =
      fl (fl (fl (py (example_series ! (1 + (3 - 1))) - py (emf ! (1 - 1))) *
              fl (2 / fl (real 3 + 1)))
        + py (emf ! (1 - 1)))"
    using f5 [rule_format, of 1] fl3 by simp
  then have fk1: "py (emf ! 1) =
      fl (fl (fl (py (example_series ! 3) - py (emf ! 0)) * fl (2 / fl (real 3 + 1)))
        + py (emf ! 0))"
    unfolding i3 i0 .
  have exf: "\<exists>ema. calculateEMA fl example_series 3 = Inr ema \<and> length ema = 3 \<and>
      py (ema ! 1) =
        fl (fl (fl (py (example_series ! 3) - py (ema ! 0)) * fl (2 / fl (real 3 + 1)))
          + py (ema ! 0))"
    using f1 fl3 fk1 by (intro exI [of _ emf]) simp
  have c: "calculateEMA fl example_series 3 =
     Inr [\<lparr>px = 30, py = 2\<rparr>, \<lparr>px = 40, py = 3\<rparr>, \<lparr>px = 50, py = 4\<rparr>]"
    by code_simp
  from exact_case obtain ema sma where e1: "calculateEMA (\<lambda>x. x) example_series 3 = Inr ema"
    and e2: "calculateSMA example_series 3 = Inr sma"
    and e3: "length ema = length example_series - (3 - 1)"
    and e4: "ema ! 0 = sma ! 0"
    and e5: "\<forall>k. 0 < k \<and> k < length ema \<longrightarrow>
            px (ema ! k) = px (example_series ! (k + (3 - 1))) \<and>
            py (ema ! k) =
              (py (example_series ! (k + (3 - 1))) - py (ema ! (k - 1))) * (2 / (real 3 + 1))
                + py (ema ! (k - 1))"
    by (elim exE conjE)
  have l3: "length ema = 3" using e3 by (simp add: example_series_def)
  have "py (ema ! 1) =
      (py (example_series ! (1 + (3 - 1))) - py (ema ! (1 - 1))) * (2 / (real 3 + 1)) + py (ema ! (1 - 1))"
    using e5 [rule_format, of 1] l3 by simp
  then have k1: "py (ema ! 1) =
      (py (example_series ! 3) - py (ema ! 0)) * (2 / (real 3 + 1)) + py (ema ! 0)"
    unfolding i3 i0 .
  have ex: "\<exists>ema sma. calculateEMA (\<lambda>x. x) example_series 3 = Inr ema \<and>
      calculateSMA example_series 3 = Inr sma \<and>
      length ema = 3 \<and> ema ! 0 = sma ! 0 \<and>
      py (ema ! 1) = (py (example_series ! 3) - py (ema ! 0)) * (2 / (real 3 + 1)) + py (ema ! 0)"
    using e1 e2 l3 e4 k1 by (intro exI [of _ ema] exI [of _ sma]) simp
  from short short_case long long_t ext tv exf c ex show ?thesis by (intro conjI) simp_all
qed









section \<open>Properties of the risk manager and the trading engine\<close>


















lemma executeTrade_rejected:
  assumes "isValid (validateTrade params)"
    and "checkTrade new_RiskManager (map_size (positions eng)) (accountInfo ev) params = Rejected reason"
  shows "executeTrade ev params eng =
     (Failure reason, setTradingButtonsEnabled True (showTradeError reason eng))"
  using assms by (simp add: executeTrade_def Let_def)









text \<open>
  C8 as stated fails: the request of the risk example passes validation and is
  rejected by \<open>checkTrade\<close>, and after \<open>executeTrade\<close> both the tracker's trade records
  and the trading history are still empty, so no failed trade record was written.
\<close>

theorem C8_rejection_recorded_counterexample:
  "isValid (validateTrade risky_request) \<and>
   checkTrade new_RiskManager (map_size (positions new_engine)) (accountInfo live_env) risky_request =
     Rejected ''Risk too high (10.00% > 5%)'' \<and>
   fst (executeTrade live_env risky_request new_engine) = Failure ''Risk too high (10.00% > 5%)'' \<and>
   trades (snd (executeTrade live_env risky_request new_engine)) = [] \<and>
   tradingHistory (snd (executeTrade live_env risky_request new_engine)) = []"
proof -
  have v: "isValid (validateTrade risky_request)" by code_simp
  have c: "checkTrade new_RiskManager (map_size (positions new_engine)) (accountInfo live_env)
      risky_request = Rejected ''Risk too high (10.00% > 5%)''"
    by code_simp
  have "executeTrade live_env risky_request new_engine =
      (Failure ''Risk too high (10.00% > 5%)'',
       setTradingButtonsEnabled True (showTradeError ''Risk too high (10.00% > 5%)'' new_engine))"
    using v c by (rule executeTrade_rejected)
  then show ?thesis
    using v c by (simp add: showTradeError_def setTradingButtonsEnabled_def new_engine_def)
qed

text \<open>
  C8, amended. For a request that passes validation and is rejected by \<open>checkTrade\<close>,
  \<open>executeTrade\<close> returns the rejection reason as a failure, shows it as an error, makes
  no SDK call, and records nothing: the tracker's trade records, the trading history
  and the positions are unchanged.
\<close>

theorem C8_risk_rejection:
  assumes "isValid (validateTrade params)"
    and "checkTrade new_RiskManager (map_size (positions eng)) (accountInfo ev) params = Rejected reason"
  shows "fst (executeTrade ev params eng) = Failure reason \<and>
         notifications (snd (executeTrade ev params eng)) = notifications eng @ [ErrorNote reason] \<and>
         sdkCalls (snd (executeTrade ev params eng)) = sdkCalls eng \<and>
         trades (snd (executeTrade ev params eng)) = trades eng \<and>
         tradingHistory (snd (executeTrade ev params eng)) = tradingHistory eng \<and>
         positions (snd (executeTrade ev params eng)) = positions eng"
  using executeTrade_rejected [OF assms]
  by (simp add: showTradeError_def setTradingButtonsEnabled_def)

theorem C8_risk_rejection_witness:
  "isValid (validateTrade risky_request) \<and>
   checkTrade new_RiskManager (map_size (positions new_engine)) (accountInfo live_env) risky_request =
     Rejected ''Risk too high (10.00% > 5%)'' \<and>
   fst (executeTrade live_env risky_request new_engine) = Failure ''Risk too high (10.00% > 5%)'' \<and>
   notifications (snd (executeTrade live_env risky_request new_engine)) =
     [ErrorNote ''Risk too high (10.00% > 5%)''] \<and>
   sdkCalls (snd (executeTrade live_env risky_request new_engine)) = []"
proof -
  have v: "isValid (validateTrade risky_request)" by code_simp
  have c: "checkTrade new_RiskManager (map_size (positions new_engine)) (accountInfo live_env)
      risky_request = Rejected ''Risk too high (10.00% > 5%)''"
    by code_simp
  from C8_risk_rejection [OF v c] v c show ?thesis
    by (simp add: new_engine_def)
qed


lemma positive_volumes_delete:
  "positive_volumes ps \<Longrightarrow> positive_volumes (AList.delete k ps)"
  by (induction ps) (auto simp: positive_volumes_def)

lemma positive_volumes_update:
  "positive_volumes ps \<Longrightarrow> 0 < pos_volume p \<Longrightarrow> positive_volumes (AList.update k p ps)"
  by (induction ps) (auto simp: positive_volumes_def)

lemma requestClose_positions:
  "positions (snd (requestClose ev pid vol eng)) = positions eng"
  by (simp add: requestClose_def)

lemma closePosition_cases:
  assumes "map_of (positions eng) pid = Some pos"
    and "success (fst (closePosition ev pid vol eng))"
  shows "positions (snd (closePosition ev pid vol eng)) =
     (if \<not> truthy vol then AList.delete pid (positions eng)
      else if pos_volume pos - num_of vol \<le> 0 then AList.delete pid (positions eng)
      else AList.update pid (pos\<lparr>pos_volume := pos_volume pos - num_of vol\<rparr>) (positions eng))"
proof (cases "requestClose ev pid vol eng")
  case (Pair r eng1)
  have p: "positions eng1 = positions eng"
    using requestClose_positions [of ev pid vol eng] Pair by simp
  show ?thesis
  proof (cases r)
    case (Success m)
    then show ?thesis
      using assms(1) Pair p by (simp add: closePosition_def Let_def showTradeSuccess_def)
  next
    case (Failure err)
    then have "\<not> success (fst (closePosition ev pid vol eng))"
      using assms(1) Pair by (simp add: closePosition_def)
    with assms(2) show ?thesis by simp
  qed
qed

lemma closePosition_unsuccessful:
  assumes "\<not> success (fst (closePosition ev pid vol eng))"
  shows "positions (snd (closePosition ev pid vol eng)) = positions eng"
proof (cases "map_of (positions eng) pid")
  case None
  then show ?thesis by (simp add: closePosition_def showTradeError_def)
next
  case (Some pos)
  show ?thesis
  proof (cases "requestClose ev pid vol eng")
    case (Pair r eng1)
    have p: "positions eng1 = positions eng"
      using requestClose_positions [of ev pid vol eng] Pair by simp
    show ?thesis
    proof (cases r)
      case (Success m)
      then have "success (fst (closePosition ev pid vol eng))"
        using Some Pair by (simp add: closePosition_def Let_def)
      with assms show ?thesis by simp
    next
      case (Failure err)
      then show ?thesis
        using Some Pair p by (simp add: closePosition_def showTradeError_def)
    qed
  qed
qed

lemma closePosition_positive:
  assumes "positive_volumes (positions eng)"
  shows "positive_volumes (positions (snd (closePosition ev pid vol eng)))"
proof (cases "success (fst (closePosition ev pid vol eng))")
  case False
  then show ?thesis using assms by (simp add: closePosition_unsuccessful)
next
  case True
  show ?thesis
  proof (cases "map_of (positions eng) pid")
    case None
    then have "\<not> success (fst (closePosition ev pid vol eng))"
      by (simp add: closePosition_def)
    with True show ?thesis by simp
  next
    case (Some pos)
    show ?thesis
      using assms
      by (simp add: closePosition_cases [OF Some True] positive_volumes_delete
          positive_volumes_update)
  qed
qed

text \<open>
  C9. After a successful \<open>closePosition\<close> of a position of the registry: without a
  volume (\<open>null\<close>, or 0, which the source's test \<open>!volume\<close> treats alike) the position
  is gone; with a volume smaller than the position's volume the position stays, its
  volume reduced by that amount; with a volume that leaves nothing positive the
  position is gone in the same step; the other positions are untouched. Hence, when
  every position of the registry has a positive volume before a call, every position
  has a positive volume after it, whatever the call returns.
\<close>

theorem C9_closePosition:
  "(map_of (positions eng) pid = Some pos \<and> success (fst (closePosition ev pid vol eng)) \<longrightarrow>
      (\<not> truthy vol \<longrightarrow>
         map_of (positions (snd (closePosition ev pid vol eng))) pid = None) \<and>
      (truthy vol \<and> num_of vol < pos_volume pos \<longrightarrow>
         map_of (positions (snd (closePosition ev pid vol eng))) pid =
           Some (pos\<lparr>pos_volume := pos_volume pos - num_of vol\<rparr>)) \<and>
      (truthy vol \<and> pos_volume pos - num_of vol \<le> 0 \<longrightarrow>
         map_of (positions (snd (closePosition ev pid vol eng))) pid = None) \<and>
      (\<forall>k. k \<noteq> pid \<longrightarrow>
         map_of (positions (snd (closePosition ev pid vol eng))) k = map_of (positions eng) k)) \<and>
   (positive_volumes (positions eng) \<longrightarrow>
      positive_volumes (positions (snd (closePosition ev pid vol eng))))"
proof (intro conjI impI allI)
  assume a: "map_of (positions eng) pid = Some pos \<and> success (fst (closePosition ev pid vol eng))"
  then have c: "positions (snd (closePosition ev pid vol eng)) =
     (if \<not> truthy vol then AList.delete pid (positions eng)
      else if pos_volume pos - num_of vol \<le> 0 then AList.delete pid (positions eng)
      else AList.update pid (pos\<lparr>pos_volume := pos_volume pos - num_of vol\<rparr>) (positions eng))"
    by (simp add: closePosition_cases)
  {
    assume "\<not> truthy vol"
    then show "map_of (positions (snd (closePosition ev pid vol eng))) pid = None"
      by (simp add: c delete_conv')
  next
    assume "truthy vol \<and> num_of vol < pos_volume pos"
    then show "map_of (positions (snd (closePosition ev pid vol eng))) pid =
           Some (pos\<lparr>pos_volume := pos_volume pos - num_of vol\<rparr>)"
      by (simp add: c update_conv')
  next
    assume "truthy vol \<and> pos_volume pos - num_of vol \<le> 0"
    then show "map_of (positions (snd (closePosition ev pid vol eng))) pid = None"
      by (simp add: c delete_conv')
  next
    fix k assume "k \<noteq> pid"
    then show "map_of (positions (snd (closePosition ev pid vol eng))) k = map_of (positions eng) k"
      by (simp add: c delete_conv' update_conv')
  }
next
  assume "positive_volumes (positions eng)"
  then show "positive_volumes (positions (snd (closePosition ev pid vol eng)))"
    by (rule closePosition_positive)
qed

theorem C9_closePosition_witness:
  "map_of (positions mock_engine) ''MOCK_POS_1'' = Some mock_position \<and>
   positive_volumes (positions mock_engine) \<and>
   success (fst (closePosition mock_env ''MOCK_POS_1'' None mock_engine)) \<and>
   map_of (positions (snd (closePosition mock_env ''MOCK_POS_1'' None mock_engine))) ''MOCK_POS_1'' = None \<and>
   success (fst (closePosition mock_env ''MOCK_POS_1'' (Some 0.05) mock_engine)) \<and>
   map_of (positions (snd (closePosition mock_env ''MOCK_POS_1'' (Some 0.05) mock_engine))) ''MOCK_POS_1'' =
     Some (mock_position\<lparr>pos_volume := 0.05\<rparr>) \<and>
   positive_volumes (positions (snd (closePosition mock_env ''MOCK_POS_1'' (Some 0.05) mock_engine))) \<and>
   success (fst (closePosition mock_env ''MOCK_POS_1'' (Some 0.1) mock_engine)) \<and>
   map_of (positions (snd (closePosition mock_env ''MOCK_POS_1'' (Some 0.1) mock_engine))) ''MOCK_POS_1'' = None"
proof -
  have g: "map_of (positions mock_engine) ''MOCK_POS_1'' = Some mock_position"
    by (simp add: mock_engine_def new_engine_def)
  have pv: "positive_volumes (positions mock_engine)"
    by (simp add: mock_engine_def new_engine_def positive_volumes_def mock_position_def)
  have s1: "success (fst (closePosition mock_env ''MOCK_POS_1'' None mock_engine))"
    by code_simp
  have s2: "success (fst (closePosition mock_env ''MOCK_POS_1'' (Some 0.05) mock_engine))"
    by code_simp
  have s3: "success (fst (closePosition mock_env ''MOCK_POS_1'' (Some 0.1) mock_engine))"
    by code_simp
  have v: "pos_volume mock_position = 0.1" by (simp add: mock_position_def)
  from C9_closePosition [of mock_engine "''MOCK_POS_1''" mock_position mock_env None] g s1
  have w1: "map_of (positions (snd (closePosition mock_env ''MOCK_POS_1'' None mock_engine)))
      ''MOCK_POS_1'' = None"
    by simp
  from C9_closePosition [of mock_engine "''MOCK_POS_1''" mock_position mock_env "Some 0.05"] g s2 pv
  have w2: "map_of (positions (snd (closePosition mock_env ''MOCK_POS_1'' (Some 0.05) mock_engine)))
      ''MOCK_POS_1'' = Some (mock_position\<lparr>pos_volume := 0.05\<rparr>) \<and>
      positive_volumes (positions (snd (closePosition mock_env ''MOCK_POS_1'' (Some 0.05) mock_engine)))"
    by (simp add: v)
  from C9_closePosition [of mock_engine "''MOCK_POS_1''" mock_position mock_env "Some 0.1"] g s3
  have w3: "map_of (positions (snd (closePosition mock_env ''MOCK_POS_1'' (Some 0.1) mock_engine)))
      ''MOCK_POS_1'' = None"
    by (simp add: v)
  from g pv s1 w1 s2 w2 s3 w3 show ?thesis by blast
qed


section \<open>Properties of the reconnection policy\<close>

lemma sdk_run_snoc: "sdk_run s (evs @ [e]) = sdk_step (sdk_run s evs) e"
  by (simp add: sdk_run_def)

lemma sdk_run_replicate_Suc:
  "sdk_run s (replicate (Suc n) e) = sdk_step (sdk_run s (replicate n e)) e"
proof -
  have "replicate (Suc n) e = replicate n e @ [e]"
    by (simp add: replicate_append_same)
  then show ?thesis by (simp only: sdk_run_snoc)
qed

lemma disconnects_below_limit:
  assumes "reconnectAttempts s = 0" and "n \<le> MAX_RECONNECT_ATTEMPTS"
  shows "reconnectAttempts (sdk_run s (replicate n DisconnectEvent)) = n \<and>
         scheduledReconnects (sdk_run s (replicate n DisconnectEvent)) = scheduledReconnects s + n \<and>
         (0 < n \<longrightarrow> status (sdk_run s (replicate n DisconnectEvent)) = Disconnected)"
  using assms(2)
proof (induction n)
  case 0
  then show ?case using assms(1) by (simp add: sdk_run_def)
next
  case (Suc n)
  then have "n < MAX_RECONNECT_ATTEMPTS" by simp
  with Suc show ?case
    unfolding sdk_run_replicate_Suc
    by (simp add: on_disconnect_def handleReconnection_def)
qed

lemma disconnects_above_limit:
  assumes "reconnectAttempts s = 0" and "n > MAX_RECONNECT_ATTEMPTS"
  shows "reconnectAttempts (sdk_run s (replicate n DisconnectEvent)) = MAX_RECONNECT_ATTEMPTS \<and>
         scheduledReconnects (sdk_run s (replicate n DisconnectEvent)) =
           scheduledReconnects s + MAX_RECONNECT_ATTEMPTS \<and>
         status (sdk_run s (replicate n DisconnectEvent)) = Failed"
  using assms(2)
proof (induction n)
  case 0
  then show ?case by simp
next
  case (Suc n)
  show ?case
  proof (cases "n = MAX_RECONNECT_ATTEMPTS")
    case True
    with disconnects_below_limit [OF assms(1), of n] show ?thesis
      unfolding sdk_run_replicate_Suc
    by (simp add: on_disconnect_def handleReconnection_def)
  next
    case False
    with Suc.prems have "n > MAX_RECONNECT_ATTEMPTS" by simp
    with Suc.IH show ?thesis
      unfolding sdk_run_replicate_Suc
    by (simp add: on_disconnect_def handleReconnection_def)
  qed
qed

lemma no_schedule_at_limit:
  assumes "reconnectAttempts s = MAX_RECONNECT_ATTEMPTS" and "ConnectEvent \<notin> set evs"
  shows "reconnectAttempts (sdk_run s evs) = MAX_RECONNECT_ATTEMPTS \<and>
         scheduledReconnects (sdk_run s evs) = scheduledReconnects s"
  using assms
proof (induction evs arbitrary: s)
  case Nil
  then show ?case by (simp add: sdk_run_def)
next
  case (Cons e evs)
  have step: "reconnectAttempts (sdk_step s e) = MAX_RECONNECT_ATTEMPTS \<and>
      scheduledReconnects (sdk_step s e) = scheduledReconnects s"
    using Cons.prems
    by (cases e) (simp_all add: on_disconnect_def handleReconnection_def
        handleConnectionError_def connect_def)
  have "ConnectEvent \<notin> set evs" using Cons.prems by simp
  from Cons.IH [OF conjunct1 [OF step] this] step show ?case
    by (simp add: sdk_run_def)
qed

text \<open>
  C3 as stated fails: from the connected state with the counter at zero, after
  exactly five consecutive disconnect events the status is \<open>disconnected\<close>, not
  \<open>failed\<close>, and the fifth event has scheduled one more reconnection.
\<close>

theorem C3_failed_after_five_counterexample:
  "status (on_connect new_sdk) = Connected \<and>
   reconnectAttempts (on_connect new_sdk) = 0 \<and>
   status (sdk_run (on_connect new_sdk) (replicate 5 DisconnectEvent)) = Disconnected \<and>
   status (sdk_run (on_connect new_sdk) (replicate 5 DisconnectEvent)) \<noteq> Failed \<and>
   scheduledReconnects (sdk_run (on_connect new_sdk) (replicate 5 DisconnectEvent)) =
     scheduledReconnects (sdk_run (on_connect new_sdk) (replicate 4 DisconnectEvent)) + 1"
  by code_simp

text \<open>
  C3, amended. \<open>MAX_RECONNECT_ATTEMPTS\<close> is 5. From a state with the counter at zero,
  each of the first five consecutive disconnect events sets the status to
  \<open>disconnected\<close>, counts one attempt and schedules one reconnection. From the sixth
  on, a consecutive disconnect event sets the status to \<open>failed\<close> and schedules
  nothing. Once the counter is at the limit, no sequence of events without a
  \<open>connect\<close> event of the adapter (which alone resets the counter) schedules a
  reconnection.
\<close>

theorem C3_reconnection_limit:
  assumes "reconnectAttempts s = 0"
  shows "MAX_RECONNECT_ATTEMPTS = 5 \<and>
     (\<forall>n. 0 < n \<and> n \<le> MAX_RECONNECT_ATTEMPTS \<longrightarrow>
        status (sdk_run s (replicate n DisconnectEvent)) = Disconnected \<and>
        reconnectAttempts (sdk_run s (replicate n DisconnectEvent)) = n \<and>
        scheduledReconnects (sdk_run s (replicate n DisconnectEvent)) = scheduledReconnects s + n) \<and>
     (\<forall>n. n > MAX_RECONNECT_ATTEMPTS \<longrightarrow>
        status (sdk_run s (replicate n DisconnectEvent)) = Failed \<and>
        reconnectAttempts (sdk_run s (replicate n DisconnectEvent)) = MAX_RECONNECT_ATTEMPTS \<and>
        scheduledReconnects (sdk_run s (replicate n DisconnectEvent)) =
          scheduledReconnects s + MAX_RECONNECT_ATTEMPTS) \<and>
     (\<forall>n evs. n \<ge> MAX_RECONNECT_ATTEMPTS \<and> ConnectEvent \<notin> set evs \<longrightarrow>
        scheduledReconnects (sdk_run (sdk_run s (replicate n DisconnectEvent)) evs) =
          scheduledReconnects s + MAX_RECONNECT_ATTEMPTS)"
proof (intro conjI allI impI)
  show "MAX_RECONNECT_ATTEMPTS = 5" by (simp add: MAX_RECONNECT_ATTEMPTS_def)
next
  fix n assume n: "0 < n \<and> n \<le> MAX_RECONNECT_ATTEMPTS"
  then have le: "n \<le> MAX_RECONNECT_ATTEMPTS" by simp
  from disconnects_below_limit [OF assms le] n
  show "status (sdk_run s (replicate n DisconnectEvent)) = Disconnected"
    and "reconnectAttempts (sdk_run s (replicate n DisconnectEvent)) = n"
    and "scheduledReconnects (sdk_run s (replicate n DisconnectEvent)) = scheduledReconnects s + n"
    by simp_all
next
  fix n assume n: "n > MAX_RECONNECT_ATTEMPTS"
  from disconnects_above_limit [OF assms n]
  show "status (sdk_run s (replicate n DisconnectEvent)) = Failed"
    and "reconnectAttempts (sdk_run s (replicate n DisconnectEvent)) = MAX_RECONNECT_ATTEMPTS"
    and "scheduledReconnects (sdk_run s (replicate n DisconnectEvent)) =
          scheduledReconnects s + MAX_RECONNECT_ATTEMPTS"
    by simp_all
next
  fix n evs assume a: "n \<ge> MAX_RECONNECT_ATTEMPTS \<and> ConnectEvent \<notin> set evs"
  have at: "reconnectAttempts (sdk_run s (replicate n DisconnectEvent)) = MAX_RECONNECT_ATTEMPTS \<and>
      scheduledReconnects (sdk_run s (replicate n DisconnectEvent)) =
        scheduledReconnects s + MAX_RECONNECT_ATTEMPTS"
  proof (cases "n = MAX_RECONNECT_ATTEMPTS")
    case True
    with disconnects_below_limit [OF assms, of n] show ?thesis by simp
  next
    case False
    with a have "n > MAX_RECONNECT_ATTEMPTS" by simp
    from disconnects_above_limit [OF assms this] show ?thesis by simp
  qed
  from no_schedule_at_limit [OF conjunct1 [OF at], of evs] a at
  show "scheduledReconnects (sdk_run (sdk_run s (replicate n DisconnectEvent)) evs) =
          scheduledReconnects s + MAX_RECONNECT_ATTEMPTS"
    by simp
qed

theorem C3_reconnection_limit_witness:
  "reconnectAttempts (on_connect new_sdk) = 0 \<and>
   status (sdk_run (on_connect new_sdk) (replicate 5 DisconnectEvent)) = Disconnected \<and>
   scheduledReconnects (sdk_run (on_connect new_sdk) (replicate 5 DisconnectEvent)) = 5 \<and>
   status (sdk_run (on_connect new_sdk) (replicate 6 DisconnectEvent)) = Failed \<and>
   scheduledReconnects (sdk_run (on_connect new_sdk) (replicate 6 DisconnectEvent)) = 5 \<and>
   scheduledReconnects
     (sdk_run (sdk_run (on_connect new_sdk) (replicate 6 DisconnectEvent))
        [TimerFired, DisconnectEvent, ManualConnect, ErrorEvent, DisconnectEvent]) = 5"
proof -
  have z: "reconnectAttempts (on_connect new_sdk) = 0" by (simp add: on_connect_def)
  have sc: "scheduledReconnects (on_connect new_sdk) = 0" by (simp add: on_connect_def new_sdk_def)
  note main = C3_reconnection_limit [OF z]
  from main have m: "MAX_RECONNECT_ATTEMPTS = 5" by (rule conjunct1)
  from main [THEN conjunct2, THEN conjunct1, rule_format, of 5]
  have w5: "status (sdk_run (on_connect new_sdk) (replicate 5 DisconnectEvent)) = Disconnected \<and>
      scheduledReconnects (sdk_run (on_connect new_sdk) (replicate 5 DisconnectEvent)) = 5"
    by (simp add: m sc)
  from main [THEN conjunct2, THEN conjunct2, THEN conjunct1, rule_format, of 6]
  have w6: "status (sdk_run (on_connect new_sdk) (replicate 6 DisconnectEvent)) = Failed \<and>
      scheduledReconnects (sdk_run (on_connect new_sdk) (replicate 6 DisconnectEvent)) = 5"
    by (simp add: m sc)
  from main [THEN conjunct2, THEN conjunct2, THEN conjunct2, rule_format, of 6
      "[TimerFired, DisconnectEvent, ManualConnect, ErrorEvent, DisconnectEvent]"]
  have w7: "scheduledReconnects
     (sdk_run (sdk_run (on_connect new_sdk) (replicate 6 DisconnectEvent))
        [TimerFired, DisconnectEvent, ManualConnect, ErrorEvent, DisconnectEvent]) = 5"
    by (simp add: m sc)
  from z w5 w6 w7 show ?thesis by blast
qed


end

